theory Spec2Isabelle
  imports Complex_Main "HOL-Library.Multiset"
begin

section \<open>The runtime\<close>

text \<open>
  Three things that the program takes from the JavaScript runtime and its settings, kept
  as parameters of everything that uses them:
  \<^item> the local time zone, as ECMAScript's \<^verbatim>\<open>LocalTZA(t, isUTC)\<close>: the offset of local time
    from UTC in milliseconds, at the UTC instant \<open>t\<close> when \<open>isUTC\<close> holds and for the local
    time value \<open>t\<close> otherwise;
  \<^item> \<^verbatim>\<open>String.prototype.toLowerCase\<close>;
  \<^item> \<^verbatim>\<open>path.join\<close> on two segments.
\<close>

record runtime =
  LocalTZA :: "int \<Rightarrow> bool \<Rightarrow> int"
  String_toLowerCase :: "string \<Rightarrow> string"
  path_join :: "string \<Rightarrow> string \<Rightarrow> string"

section \<open>Dates\<close>

text \<open>
  The program carries dates as ISO strings \<^verbatim>\<open>YYYY-MM-DD\<close> and compares them as strings
  (\<^verbatim>\<open>nextDay <= endDate\<close>, SQL \<^verbatim>\<open>date < ?\<close>, \<^verbatim>\<open>MAX(date)\<close>). Such a string is
  represented here by its day number (days since 1970-01-01), on which the string order is
  the numeric order. A JavaScript \<^verbatim>\<open>Date\<close> is its time value, the milliseconds since the
  epoch. \<^verbatim>\<open>new Date('YYYY-MM-DD')\<close> is midnight UTC of that day, and
  \<^verbatim>\<open>d.toISOString().slice(0, 10)\<close> is the UTC day of a time value. The empty string that
  \<^verbatim>\<open>transformRow\<close> stores as \<^verbatim>\<open>date\<close> when the date dimension is not requested is not a
  date and has no day number.
\<close>

type_synonym isodate = int

definition new_Date :: "isodate \<Rightarrow> int" where
  "new_Date s = s * 86400000"

definition toISODate :: "int \<Rightarrow> isodate" where
  "toISODate t = t div 86400000"

text \<open>ECMAScript's \<^verbatim>\<open>LocalTime(t)\<close> and \<^verbatim>\<open>UTC(t)\<close>.\<close>

definition LocalTime :: "runtime \<Rightarrow> int \<Rightarrow> int" where
  "LocalTime rt t = t + LocalTZA rt t True"

definition UTC_of_local :: "runtime \<Rightarrow> int \<Rightarrow> int" where
  "UTC_of_local rt t = t - LocalTZA rt t False"

text \<open>
  \<^verbatim>\<open>d.setDate(d.getDate() + k)\<close>. \<^verbatim>\<open>getDate\<close> reads the day of the month of the local
  time; \<^verbatim>\<open>setDate\<close> replaces it, keeping the local time of day, and converts the local
  time back: the local time value moves by \<open>k\<close> days of 86400000 ms.
\<close>

definition setDate_plus :: "runtime \<Rightarrow> int \<Rightarrow> int \<Rightarrow> int" where
  "setDate_plus rt t k = UTC_of_local rt (LocalTime rt t + k * 86400000)"

text \<open>\<^verbatim>\<open>daysBetween\<close>: \<^verbatim>\<open>Math.round((to.getTime() - from.getTime()) / (1000 * 60 * 60 * 24))\<close>,
  with \<^verbatim>\<open>Math.round x\<close> being \<open>\<lfloor>x + 1/2\<rfloor>\<close>.\<close>

definition daysBetween :: "isodate \<Rightarrow> isodate \<Rightarrow> int" where
  "daysBetween dateFrom dateTo =
     (2 * (new_Date dateTo - new_Date dateFrom) + 1000 * 60 * 60 * 24) div (2 * (1000 * 60 * 60 * 24))"

section \<open>Chunk planner\<close>

definition CHUNK_DAYS :: int where
  "CHUNK_DAYS = 90"

record chunk =
  from_date :: isodate
  to_date :: isodate

text \<open>
  The \<^verbatim>\<open>while (cursor <= end)\<close> loop of \<^verbatim>\<open>buildChunks\<close>, on time values, with the array
  \<^verbatim>\<open>chunks\<close> that it pushes to. Whether the cursor ever passes \<^verbatim>\<open>end\<close> depends on the
  time zone; a loop that never leaves has the value \<open>None\<close>.
\<close>

partial_function (option) buildChunks_loop :: "runtime \<Rightarrow> int \<Rightarrow> int \<Rightarrow> chunk list \<Rightarrow> chunk list option" where
  "buildChunks_loop rt cursor end_t chunks =
     (if cursor \<le> end_t then
        (let chunkEnd = setDate_plus rt cursor (CHUNK_DAYS - 1);
             effectiveEnd = (if chunkEnd > end_t then end_t else chunkEnd)
         in buildChunks_loop rt (setDate_plus rt effectiveEnd 1) end_t
              (chunks @ [\<lparr>from_date = toISODate cursor, to_date = toISODate effectiveEnd\<rparr>]))
      else Some chunks)"

declare buildChunks_loop.simps [code]

definition buildChunks :: "runtime \<Rightarrow> isodate \<Rightarrow> isodate \<Rightarrow> chunk list option" where
  "buildChunks rt dateFrom dateTo = buildChunks_loop rt (new_Date dateFrom) (new_Date dateTo) []"

section \<open>The store: one SQLite database per property\<close>

text \<open>
  A row of the table \<^verbatim>\<open>search_analytics\<close>, with the ten columns the insert statement
  writes. The dimension columns are nullable (\<^verbatim>\<open>string | null\<close>); \<^verbatim>\<open>ctr\<close> and
  \<^verbatim>\<open>position\<close> are only stored and read back. The columns \<^verbatim>\<open>id\<close> and
  \<^verbatim>\<open>created_at\<close> are filled in by the engine and read by no operation modelled here, so
  a table is the list of its rows in rowid order. The table carries no property column:
  \<^verbatim>\<open>new Database(getDbPath(siteUrl))\<close> opens the file of one property, and every query
  runs on that file only.
\<close>

record SearchAnalyticsRow =
  date :: isodate
  query :: "string option"
  page :: "string option"
  device :: "string option"
  country :: "string option"
  searchAppearance :: "string option"
  clicks :: int
  impressions :: int
  ctr :: real
  position :: real

type_synonym table = "SearchAnalyticsRow list"

text \<open>\<^verbatim>\<open>getLastSyncDate(siteUrl)\<close>: \<^verbatim>\<open>SELECT MAX(date) as max_date FROM search_analytics\<close>;
  the statement has no parameter, and \<^verbatim>\<open>MAX\<close> over no rows is \<^verbatim>\<open>NULL\<close>.\<close>

definition getLastSyncDate :: "string \<Rightarrow> table \<Rightarrow> isodate option" where
  "getLastSyncDate siteUrl tbl = (if tbl = [] then None else Some (Max (set (map date tbl))))"



text \<open>
  \<^verbatim>\<open>CREATE UNIQUE INDEX idx_sa_unique ON search_analytics(date, query, page, device, country)\<close>.
  In SQLite two rows collide on a unique index when all indexed columns are equal and none
  of them is \<^verbatim>\<open>NULL\<close>: for a unique index every \<^verbatim>\<open>NULL\<close> is distinct from every other
  value, another \<^verbatim>\<open>NULL\<close> included. \<^verbatim>\<open>date\<close> is \<^verbatim>\<open>NOT NULL\<close>.
\<close>

definition idx_sa_unique_conflict :: "SearchAnalyticsRow \<Rightarrow> SearchAnalyticsRow \<Rightarrow> bool" where
  "idx_sa_unique_conflict a b \<longleftrightarrow>
     date a = date b
     \<and> query a \<noteq> None \<and> query a = query b
     \<and> page a \<noteq> None \<and> page a = page b
     \<and> device a \<noteq> None \<and> device a = device b
     \<and> country a \<noteq> None \<and> country a = country b"

text \<open>\<^verbatim>\<open>INSERT OR REPLACE\<close>: the rows that collide with the new row are deleted, then the
  new row is inserted (with a fresh rowid, so at the end of the table).\<close>

definition insert_or_replace :: "SearchAnalyticsRow \<Rightarrow> table \<Rightarrow> table" where
  "insert_or_replace row tbl = filter (\<lambda>old. \<not> idx_sa_unique_conflict old row) tbl @ [row]"

text \<open>\<^verbatim>\<open>insertSearchAnalyticsBatch\<close>: the \<^verbatim>\<open>for (const row of rows)\<close> loop inside one
  transaction, counting the statements run.\<close>

fun insertSearchAnalyticsBatch_loop :: "SearchAnalyticsRow list \<Rightarrow> table \<Rightarrow> nat \<Rightarrow> table \<times> nat" where
  "insertSearchAnalyticsBatch_loop [] tbl inserted = (tbl, inserted)"
| "insertSearchAnalyticsBatch_loop (row # rows) tbl inserted =
     insertSearchAnalyticsBatch_loop rows (insert_or_replace row tbl) (inserted + 1)"

definition insertSearchAnalyticsBatch :: "SearchAnalyticsRow list \<Rightarrow> table \<Rightarrow> table \<times> nat" where
  "insertSearchAnalyticsBatch rows tbl = insertSearchAnalyticsBatch_loop rows tbl 0"

section \<open>Retention\<close>

record RetentionPolicy =
  recentDays :: int
  targetMinImpressions :: int
  pruneNonTargetZeroClicks :: bool
  targetCountries :: "string list"

text \<open>\<^verbatim>\<open>Partial<RetentionPolicy>\<close>: every field may be absent.\<close>

record PartialRetentionPolicy =
  opt_recentDays :: "int option"
  opt_targetMinImpressions :: "int option"
  opt_pruneNonTargetZeroClicks :: "bool option"
  opt_targetCountries :: "string list option"

definition DEFAULT_TARGET_COUNTRIES :: "string list" where
  "DEFAULT_TARGET_COUNTRIES =
     [''usa'', ''gbr'', ''aus'', ''can'',
      ''deu'', ''fra'', ''ita'', ''esp'', ''nld'', ''bel'', ''aut'', ''pol'', ''swe'', ''prt'',
      ''che'', ''dnk'', ''nor'', ''fin'', ''irl'', ''cze'', ''hun'', ''rou'', ''bgr'', ''hrv'',
      ''svk'', ''svn'', ''ltu'', ''lva'', ''est'', ''lux'', ''mlt'', ''cyp'', ''grc'']"

definition DEFAULT_POLICY :: RetentionPolicy where
  "DEFAULT_POLICY = \<lparr>recentDays = 90, targetMinImpressions = 5,
     pruneNonTargetZeroClicks = True, targetCountries = DEFAULT_TARGET_COUNTRIES\<rparr>"

text \<open>\<^verbatim>\<open>{ ...DEFAULT_POLICY, ...policy }\<close>\<close>

definition merge_policy :: "PartialRetentionPolicy \<Rightarrow> RetentionPolicy" where
  "merge_policy policy =
     \<lparr>recentDays = (case opt_recentDays policy of Some v \<Rightarrow> v | None \<Rightarrow> recentDays DEFAULT_POLICY),
      targetMinImpressions = (case opt_targetMinImpressions policy of Some v \<Rightarrow> v
                              | None \<Rightarrow> targetMinImpressions DEFAULT_POLICY),
      pruneNonTargetZeroClicks = (case opt_pruneNonTargetZeroClicks policy of Some v \<Rightarrow> v
                              | None \<Rightarrow> pruneNonTargetZeroClicks DEFAULT_POLICY),
      targetCountries = (case opt_targetCountries policy of Some v \<Rightarrow> v
                              | None \<Rightarrow> targetCountries DEFAULT_POLICY)\<rparr>"

text \<open>SQL \<^verbatim>\<open>LOWER\<close> as SQLite has it built in: only the letters \<^verbatim>\<open>A\<close> to \<^verbatim>\<open>Z\<close> are
  mapped, to \<^verbatim>\<open>a\<close> to \<^verbatim>\<open>z\<close>; every other byte is left as it is. (The targets are
  lower-cased by JavaScript's \<^verbatim>\<open>c.toLowerCase()\<close>, which is the runtime's.)\<close>

definition sql_lower_char :: "char \<Rightarrow> char" where
  "sql_lower_char c = (let n = (of_char c :: nat) in if 65 \<le> n \<and> n \<le> 90 then char_of (n + 32) else c)"

definition sql_LOWER :: "string \<Rightarrow> string" where
  "sql_LOWER s = map sql_lower_char s"

text \<open>
  SQL \<^verbatim>\<open>x IN (v1, ..., vn)\<close> in three-valued logic, \<open>None\<close> being \<^verbatim>\<open>NULL\<close>: on an empty list
  the result is false whatever \<open>x\<close> is; otherwise a \<^verbatim>\<open>NULL\<close> operand gives \<^verbatim>\<open>NULL\<close>. The
  list holds bound string parameters, never \<^verbatim>\<open>NULL\<close>. \<^verbatim>\<open>NOT IN\<close> negates, \<^verbatim>\<open>NULL\<close> staying
  \<^verbatim>\<open>NULL\<close>. A \<^verbatim>\<open>WHERE\<close> clause selects the rows on which the condition is true.
\<close>

definition sql_in :: "string option \<Rightarrow> string list \<Rightarrow> bool option" where
  "sql_in x vs = (if vs = [] then Some False
                  else case x of None \<Rightarrow> None | Some v \<Rightarrow> Some (v \<in> set vs))"

definition sql_not_in :: "string option \<Rightarrow> string list \<Rightarrow> bool option" where
  "sql_not_in x vs = map_option Not (sql_in x vs)"

text \<open>\<^verbatim>\<open>WHERE date < ? AND clicks = 0 AND impressions < ? AND LOWER(country) IN (...)\<close>\<close>

definition target_low_value :: "isodate \<Rightarrow> int \<Rightarrow> string list \<Rightarrow> SearchAnalyticsRow \<Rightarrow> bool" where
  "target_low_value cutoffDate minImpressions lowerTargets r \<longleftrightarrow>
     date r < cutoffDate \<and> clicks r = 0 \<and> impressions r < minImpressions
     \<and> sql_in (map_option sql_LOWER (country r)) lowerTargets = Some True"

text \<open>\<^verbatim>\<open>WHERE date < ? AND clicks = 0 AND LOWER(country) NOT IN (...)\<close>\<close>

definition non_target_zero_click :: "isodate \<Rightarrow> string list \<Rightarrow> SearchAnalyticsRow \<Rightarrow> bool" where
  "non_target_zero_click cutoffDate lowerTargets r \<longleftrightarrow>
     date r < cutoffDate \<and> clicks r = 0
     \<and> sql_not_in (map_option sql_LOWER (country r)) lowerTargets = Some True"

text \<open>\<^verbatim>\<open>DELETE FROM search_analytics WHERE ...\<close>, returning the table and \<^verbatim>\<open>changes\<close>;
  \<^verbatim>\<open>SELECT COUNT(*) ... WHERE ...\<close>.\<close>

definition delete_where :: "(SearchAnalyticsRow \<Rightarrow> bool) \<Rightarrow> table \<Rightarrow> table \<times> nat" where
  "delete_where cond tbl = (filter (\<lambda>r. \<not> cond r) tbl, length (filter cond tbl))"

definition count_where :: "(SearchAnalyticsRow \<Rightarrow> bool) \<Rightarrow> table \<Rightarrow> nat" where
  "count_where cond tbl = length (filter cond tbl)"

text \<open>\<^verbatim>\<open>const cutoff = new Date(); cutoff.setDate(cutoff.getDate() - p.recentDays);
  cutoffDate = cutoff.toISOString().slice(0, 10)\<close>, the clock reading \<open>now\<close> made a parameter.\<close>

definition cutoffDate_of :: "runtime \<Rightarrow> int \<Rightarrow> RetentionPolicy \<Rightarrow> isodate" where
  "cutoffDate_of rt now p = toISODate (setDate_plus rt now (- recentDays p))"

text \<open>The result of \<^verbatim>\<open>prune\<close>; the database sizes and the duration are left out.\<close>

record PruneResult =
  pr_siteUrl :: string
  rowsBefore :: int
  rowsDeleted :: int
  rowsAfter :: int
  vacuumed :: bool

definition prune :: "runtime \<Rightarrow> int \<Rightarrow> string \<Rightarrow> PartialRetentionPolicy \<Rightarrow> table \<Rightarrow> table \<times> PruneResult" where
  "prune rt now siteUrl policy tbl =
     (let p = merge_policy policy;
          rowsBefore = int (length tbl);
          cutoffDate = cutoffDate_of rt now p;
          lowerTargets = map (String_toLowerCase rt) (targetCountries p);
          (tbl1, targetChanges) =
             delete_where (target_low_value cutoffDate (targetMinImpressions p) lowerTargets) tbl;
          (tbl2, nonTargetDeleted) =
             (if pruneNonTargetZeroClicks p
              then delete_where (non_target_zero_click cutoffDate lowerTargets) tbl1
              else (tbl1, 0));
          totalDeleted = int targetChanges + int nonTargetDeleted;
          rowsAfter = rowsBefore - totalDeleted
      in (tbl2, \<lparr>pr_siteUrl = siteUrl, rowsBefore = rowsBefore, rowsDeleted = totalDeleted,
                  rowsAfter = rowsAfter, vacuumed = (totalDeleted > 0)\<rparr>))"

text \<open>The result of \<^verbatim>\<open>preview\<close>; \<^verbatim>\<open>reductionPct\<close>, a rounded floating-point ratio, is left
  out. The database is opened read-only; the table is returned as it was read.\<close>

record PreviewBreakdown =
  targetLowValue :: int
  nonTargetZeroClick :: int
  recentProtected :: int

record PreviewResult =
  pv_siteUrl :: string
  totalRows :: int
  wouldDelete :: int
  wouldKeep :: int
  breakdown :: PreviewBreakdown

definition preview :: "runtime \<Rightarrow> int \<Rightarrow> string \<Rightarrow> PartialRetentionPolicy \<Rightarrow> table \<Rightarrow> table \<times> PreviewResult" where
  "preview rt now siteUrl policy tbl =
     (let p = merge_policy policy;
          totalRows = int (length tbl);
          cutoffDate = cutoffDate_of rt now p;
          lowerTargets = map (String_toLowerCase rt) (targetCountries p);
          targetLowValue = int (count_where
             (target_low_value cutoffDate (targetMinImpressions p) lowerTargets) tbl);
          nonTargetZeroClick = int (count_where (non_target_zero_click cutoffDate lowerTargets) tbl);
          recentProtected = int (count_where (\<lambda>r. date r \<ge> cutoffDate) tbl);
          wouldDelete = targetLowValue + (if pruneNonTargetZeroClicks p then nonTargetZeroClick else 0)
      in (tbl, \<lparr>pv_siteUrl = siteUrl, totalRows = totalRows, wouldDelete = wouldDelete,
                 wouldKeep = totalRows - wouldDelete,
                 breakdown = \<lparr>targetLowValue = targetLowValue,
                               nonTargetZeroClick = nonTargetZeroClick,
                               recentProtected = recentProtected\<rparr>\<rparr>))"

section \<open>Database paths\<close>

text \<open>\<^verbatim>\<open>name.replace(/^sc-domain:/, '')\<close> and \<^verbatim>\<open>name.replace(/^https?:\/\//, '')\<close>:
  a prefix is removed when it is there.\<close>

definition remove_prefix :: "string \<Rightarrow> string \<Rightarrow> string" where
  "remove_prefix p s = (if take (length p) s = p then drop (length p) s else s)"

definition remove_protocol :: "string \<Rightarrow> string" where
  "remove_protocol s =
     (if take 8 s = ''https://'' then drop 8 s
      else if take 7 s = ''http://'' then drop 7 s
      else s)"

text \<open>\<^verbatim>\<open>name.replace(/\/+$/, '')\<close>\<close>

definition remove_trailing_slashes :: "string \<Rightarrow> string" where
  "remove_trailing_slashes s = rev (dropWhile (\<lambda>c. c = CHR ''/'') (rev s))"

text \<open>\<^verbatim>\<open>name.replace(/[^a-zA-Z0-9.-]/g, '_')\<close>\<close>

definition safe_char :: "char \<Rightarrow> bool" where
  "safe_char c =
     (let n = (of_char c :: nat)
      in (97 \<le> n \<and> n \<le> 122) \<or> (65 \<le> n \<and> n \<le> 90) \<or> (48 \<le> n \<and> n \<le> 57)
         \<or> c = CHR ''.'' \<or> c = CHR ''-'')"

definition sanitizeSiteUrl :: "string \<Rightarrow> string" where
  "sanitizeSiteUrl siteUrl =
     map (\<lambda>c. if safe_char c then c else CHR ''_'')
       (remove_trailing_slashes (remove_protocol (remove_prefix ''sc-domain:'' siteUrl)))"

text \<open>\<^verbatim>\<open>join(getDataDir(), sanitizeSiteUrl(siteUrl) + '.db')\<close>, the data directory (an
  environment setting) being a parameter.\<close>

definition getDbPath :: "runtime \<Rightarrow> string \<Rightarrow> string \<Rightarrow> string" where
  "getDbPath rt dataDir siteUrl = path_join rt dataDir (sanitizeSiteUrl siteUrl @ ''.db'')"

section \<open>Jobs and the job registry\<close>

datatype SyncJobStatus = Queued | Syncing | Completed | Failed | Cancelled

datatype ResultStatus = RCompleted | RFailed | RSkipped | RCancelled

text \<open>\<^verbatim>\<open>SyncJobResult\<close>, without \<^verbatim>\<open>durationMs\<close> and \<^verbatim>\<open>pruned\<close> (clock readings and
  file sizes).\<close>

record SyncJobResult =
  res_siteUrl :: string
  res_status :: ResultStatus
  res_rowsFetched :: int
  res_rowsInserted :: int
  res_error :: "string option"

text \<open>An element of \<^verbatim>\<open>SyncJob['properties']\<close>.\<close>

record PropertyRequest =
  siteUrl :: string
  startDate :: "isodate option"
  endDate :: "isodate option"
  dimensions :: "string list option"
  searchType :: "string option"

text \<open>The two texts a status can carry in \<^verbatim>\<open>error\<close>:
  \<^verbatim>\<open>`${failCount} of ${job.totalProperties} properties failed`\<close> and
  \<^verbatim>\<open>`Job ${jobId} not found. It may have expired from history.`\<close>\<close>

datatype job_error = PropertiesFailed nat nat | JobNotFound string

text \<open>\<^verbatim>\<open>SyncJob\<close>, without the progress display fields (\<^verbatim>\<open>currentProperty\<close>,
  \<^verbatim>\<open>rowsFetched\<close>, \<^verbatim>\<open>estimatedTotalRows\<close>, \<^verbatim>\<open>apiCallsMade\<close>) and \<^verbatim>\<open>startedAt\<close>.\<close>

record SyncJob =
  job_id :: string
  status :: SyncJobStatus
  cancelled :: bool
  properties :: "PropertyRequest list"
  totalProperties :: nat
  completedProperties :: nat
  results :: "SyncJobResult list"
  error :: "job_error option"

record SyncStatus =
  st_jobId :: string
  st_status :: SyncJobStatus
  st_totalProperties :: nat
  st_completedProperties :: nat
  st_results :: "SyncJobResult list"
  st_error :: "job_error option"

definition MAX_JOB_HISTORY :: nat where
  "MAX_JOB_HISTORY = 50"

definition PROPERTY_CONCURRENCY :: nat where
  "PROPERTY_CONCURRENCY = 2"

text \<open>The fields of \<^verbatim>\<open>SyncManager\<close>: \<^verbatim>\<open>jobs = new Map<string, SyncJob>()\<close> and
  \<^verbatim>\<open>jobOrder: string[]\<close>.\<close>

record SyncManager =
  jobs :: "string \<rightharpoonup> SyncJob"
  jobOrder :: "string list"

definition new_SyncManager :: SyncManager where
  "new_SyncManager = \<lparr>jobs = Map.empty, jobOrder = []\<rparr>"

text \<open>The test \<^verbatim>\<open>status === 'completed' || status === 'failed' || status === 'cancelled'\<close>
  that \<^verbatim>\<open>cancelJob\<close> and \<^verbatim>\<open>pruneHistory\<close> both make.\<close>

definition is_terminal :: "SyncJobStatus \<Rightarrow> bool" where
  "is_terminal s \<longleftrightarrow> s = Completed \<or> s = Failed \<or> s = Cancelled"

definition jobToStatus :: "SyncJob \<Rightarrow> SyncStatus" where
  "jobToStatus job =
     \<lparr>st_jobId = job_id job, st_status = status job, st_totalProperties = totalProperties job,
      st_completedProperties = completedProperties job, st_results = results job,
      st_error = error job\<rparr>"

text \<open>
  \<^verbatim>\<open>getStatus(jobId?)\<close>. \<^verbatim>\<open>if (jobId)\<close> is false for an absent and for an empty string:
  then the statuses of all tracked jobs are returned, in \<^verbatim>\<open>jobOrder\<close>;
  \<^verbatim>\<open>this.jobs.get(id)!\<close> on an id without a job makes \<^verbatim>\<open>jobToStatus\<close> throw, which is
  the result \<open>None\<close> of \<open>those\<close>.
\<close>

definition getStatus :: "string option \<Rightarrow> SyncManager \<Rightarrow> SyncStatus + SyncStatus list option" where
  "getStatus jobId m =
     (let all_jobs = Inr (those (map (\<lambda>i. map_option jobToStatus (jobs m i)) (jobOrder m)))
      in case jobId of
           None \<Rightarrow> all_jobs
         | Some i \<Rightarrow>
             if i = [] then all_jobs
             else (case jobs m i of
                     None \<Rightarrow> Inl \<lparr>st_jobId = i, st_status = Failed, st_totalProperties = 0,
                                  st_completedProperties = 0, st_results = [],
                                  st_error = Some (JobNotFound i)\<rparr>
                   | Some job \<Rightarrow> Inl (jobToStatus job)))"

definition cancelJob :: "string \<Rightarrow> SyncManager \<Rightarrow> bool \<times> SyncManager" where
  "cancelJob jobId m =
     (case jobs m jobId of
        None \<Rightarrow> (False, m)
      | Some job \<Rightarrow>
          if status job = Completed \<or> status job = Failed \<or> status job = Cancelled
          then (False, m)
          else (True, m\<lparr>jobs := (jobs m)(jobId \<mapsto> job\<lparr>cancelled := True, status := Cancelled\<rparr>)\<rparr>))"

text \<open>\<^verbatim>\<open>pruneHistory\<close>: the \<^verbatim>\<open>while (this.jobOrder.length > MAX_JOB_HISTORY)\<close> loop.
  \<^verbatim>\<open>shift()\<close> takes the oldest id; it is put back by \<^verbatim>\<open>unshift\<close> and the loop is left
  when the job is missing or not terminal.\<close>

function pruneHistory :: "SyncManager \<Rightarrow> SyncManager" where
  "pruneHistory m =
     (if length (jobOrder m) > MAX_JOB_HISTORY then
        (case jobOrder m of
           [] \<Rightarrow> m
         | oldId # rest \<Rightarrow>
             (case jobs m oldId of
                Some oldJob \<Rightarrow>
                  if status oldJob = Completed \<or> status oldJob = Failed \<or> status oldJob = Cancelled
                  then pruneHistory (m\<lparr>jobs := (jobs m)(oldId := None), jobOrder := rest\<rparr>)
                  else m
              | None \<Rightarrow> m))
      else m)"
  by pat_completeness auto
termination
  by (relation "measure (\<lambda>m. length (jobOrder m))") auto

declare pruneHistory.simps [simp del]

text \<open>\<^verbatim>\<open>createJob\<close>; the identifier \<^verbatim>\<open>randomUUID().slice(0, 8)\<close> is a parameter.\<close>

definition createJob :: "string \<Rightarrow> PropertyRequest list \<Rightarrow> SyncManager \<Rightarrow> SyncJob \<times> SyncManager" where
  "createJob new_id props m =
     (let job = \<lparr>job_id = new_id, status = Queued, cancelled = False, properties = props,
                 totalProperties = length props, completedProperties = 0, results = [],
                 error = None\<rparr>
      in (job, pruneHistory (m\<lparr>jobs := (jobs m)(new_id \<mapsto> job), jobOrder := jobOrder m @ [new_id]\<rparr>)))"

subsection \<open>The parts of \<^verbatim>\<open>runJob\<close> that write the job\<close>

text \<open>\<^verbatim>\<open>job.status = 'syncing'\<close>, run synchronously by \<^verbatim>\<open>startSync\<close> before it returns
  the identifier.\<close>

definition runJob_begin :: "SyncJob \<Rightarrow> SyncJob" where
  "runJob_begin job = job\<lparr>status := Syncing\<rparr>"

text \<open>What \<^verbatim>\<open>await this.syncOneProperty(job, prop)\<close> does: it returns a result or throws.\<close>

datatype outcome = Returned SyncJobResult | Threw string

text \<open>The \<^verbatim>\<open>try\<close>/\<^verbatim>\<open>catch\<close> of \<^verbatim>\<open>syncProperty\<close> and the counter after it.\<close>

definition syncProperty_settle :: "PropertyRequest \<Rightarrow> outcome \<Rightarrow> SyncJob \<Rightarrow> SyncJob" where
  "syncProperty_settle prop out job =
     (let result = (case out of
                      Returned r \<Rightarrow> r
                    | Threw errorMessage \<Rightarrow>
                        \<lparr>res_siteUrl = siteUrl prop, res_status = RFailed, res_rowsFetched = 0,
                         res_rowsInserted = 0, res_error = Some errorMessage\<rparr>)
      in job\<lparr>results := results job @ [result],
               completedProperties := completedProperties job + 1\<rparr>)"

text \<open>The end of \<^verbatim>\<open>runJob\<close>, after \<^verbatim>\<open>await runWithConcurrency(...)\<close>.\<close>

definition runJob_finish :: "SyncJob \<Rightarrow> SyncJob" where
  "runJob_finish job =
     (if cancelled job then job\<lparr>status := Cancelled\<rparr>
      else
        (let anyFailed = list_ex (\<lambda>r. res_status r = RFailed) (results job);
             allFailed = (length (results job) > 0 \<and> list_all (\<lambda>r. res_status r = RFailed) (results job));
             job1 = job\<lparr>status := (if allFailed then Failed else Completed)\<rparr>
         in if anyFailed \<and> \<not> allFailed
            then job1\<lparr>error := Some (PropertiesFailed
                          (length (filter (\<lambda>r. res_status r = RFailed) (results job)))
                          (totalProperties job))\<rparr>
            else job1))"

text \<open>\<^verbatim>\<open>cancelJob\<close> as it acts on the job object it finds.\<close>

definition cancel_found :: "SyncJob \<Rightarrow> SyncJob" where
  "cancel_found job =
     (if status job = Completed \<or> status job = Failed \<or> status job = Cancelled then job
      else job\<lparr>cancelled := True, status := Cancelled\<rparr>)"

subsection \<open>One job's execution\<close>

text \<open>
  \<^verbatim>\<open>runWithConcurrency(job.properties, PROPERTY_CONCURRENCY, syncProperty)\<close> starts
  \<^verbatim>\<open>min(limit, items.length)\<close> workers that share \<^verbatim>\<open>index\<close>; each takes
  \<^verbatim>\<open>items[index++]\<close> and awaits \<^verbatim>\<open>fn\<close> on it until \<^verbatim>\<open>index\<close> reaches the length.
  The run state holds the job, \<^verbatim>\<open>index\<close>, and the items whose \<^verbatim>\<open>fn\<close> is awaiting
  \<^verbatim>\<open>syncOneProperty\<close>. What happens between two suspension points is one step; the
  schedule says which step comes next:
  \<^item> \<open>Take\<close>: a worker that is not awaiting takes the next item; \<^verbatim>\<open>syncProperty\<close> returns
    at once when \<^verbatim>\<open>job.cancelled\<close> is set, and otherwise awaits \<^verbatim>\<open>syncOneProperty\<close>;
  \<^item> \<open>Settle i out\<close>: the awaited call for item \<open>i\<close> ends with \<open>out\<close>;
  \<^item> \<open>CancelRequest\<close>: a caller runs \<^verbatim>\<open>cancelJob\<close> with this job's identifier.
  A step that cannot happen in the state makes the schedule impossible (\<open>None\<close>).
\<close>

datatype step = Take | Settle nat outcome | CancelRequest

record run_state =
  rs_job :: SyncJob
  rs_index :: nat
  rs_awaiting :: "nat list"

definition run_step :: "step \<Rightarrow> run_state \<Rightarrow> run_state option" where
  "run_step st s =
     (case st of
        Take \<Rightarrow>
          if rs_index s < length (properties (rs_job s))
             \<and> length (rs_awaiting s) < min PROPERTY_CONCURRENCY (length (properties (rs_job s)))
          then Some (if cancelled (rs_job s)
                     then s\<lparr>rs_index := rs_index s + 1\<rparr>
                     else s\<lparr>rs_index := rs_index s + 1, rs_awaiting := rs_awaiting s @ [rs_index s]\<rparr>)
          else None
      | Settle i out \<Rightarrow>
          if i \<in> set (rs_awaiting s)
          then Some (s\<lparr>rs_job := syncProperty_settle (properties (rs_job s) ! i) out (rs_job s),
                       rs_awaiting := removeAll i (rs_awaiting s)\<rparr>)
          else None
      | CancelRequest \<Rightarrow> Some (s\<lparr>rs_job := cancel_found (rs_job s)\<rparr>))"

fun run_steps :: "step list \<Rightarrow> run_state \<Rightarrow> run_state option" where
  "run_steps [] s = Some s"
| "run_steps (st # sts) s = (case run_step st s of None \<Rightarrow> None | Some s' \<Rightarrow> run_steps sts s')"

text \<open>\<^verbatim>\<open>runJob\<close> under a schedule: \<^verbatim>\<open>await runWithConcurrency\<close> resumes when every item
  has been taken and no call is awaited; a schedule that stops before is not a finished
  execution (\<open>None\<close>).\<close>

definition runJob :: "SyncJob \<Rightarrow> step list \<Rightarrow> SyncJob option" where
  "runJob job schedule =
     (case run_steps schedule \<lparr>rs_job = runJob_begin job, rs_index = 0, rs_awaiting = []\<rparr> of
        None \<Rightarrow> None
      | Some s \<Rightarrow>
          if rs_index s \<ge> length (properties (rs_job s)) \<and> rs_awaiting s = []
          then Some (runJob_finish (rs_job s))
          else None)"

subsection \<open>The manager over time\<close>

text \<open>A write of a running \<^verbatim>\<open>runJob\<close> to its job, as the manager sees it: the entry
  under the job's identifier changes when the job is still tracked.\<close>

definition on_job :: "string \<Rightarrow> (SyncJob \<Rightarrow> SyncJob) \<Rightarrow> SyncManager \<Rightarrow> SyncManager" where
  "on_job jobId f m =
     (case jobs m jobId of None \<Rightarrow> m | Some job \<Rightarrow> m\<lparr>jobs := (jobs m)(jobId \<mapsto> f job)\<rparr>)"

text \<open>\<^verbatim>\<open>const job = this.createJob(...); this.runJob(job); return job.id;\<close>, the common
  end of \<^verbatim>\<open>startSync\<close> and \<^verbatim>\<open>startSyncAll\<close>: \<^verbatim>\<open>runJob\<close> runs up to its first \<^verbatim>\<open>await\<close>,
  which sets the status \<^verbatim>\<open>syncing\<close>, before the identifier is returned.\<close>

definition start_job :: "string \<Rightarrow> PropertyRequest list \<Rightarrow> SyncManager \<Rightarrow> string \<times> SyncManager" where
  "start_job new_id props m =
     (let (job, m1) = createJob new_id props m
      in (job_id job, on_job (job_id job) runJob_begin m1))"

text \<open>\<^verbatim>\<open>startSync(args)\<close> creates the job of the one request \<^verbatim>\<open>[args]\<close>.\<close>

definition startSync :: "string \<Rightarrow> PropertyRequest \<Rightarrow> SyncManager \<Rightarrow> string \<times> SyncManager" where
  "startSync new_id args m = start_job new_id [args] m"

text \<open>\<^verbatim>\<open>startSyncAll(args)\<close> creates the job of one request per property that
  \<^verbatim>\<open>listProperties()\<close> returned (\<open>listed\<close>, their site URLs), each with the dates,
  dimensions and search type of \<open>args\<close>.\<close>

definition startSyncAll :: "string \<Rightarrow> string list \<Rightarrow> PropertyRequest \<Rightarrow> SyncManager \<Rightarrow> string \<times> SyncManager" where
  "startSyncAll new_id listed args m =
     start_job new_id (map (\<lambda>url. args\<lparr>siteUrl := url\<rparr>) listed) m"

text \<open>
  What can happen to a manager between two calls of its caller: a job is started, a job
  is cancelled, and a running \<^verbatim>\<open>runJob\<close> writes to its job (a property's result is
  recorded, or \<^verbatim>\<open>runJob\<close> reaches its end). \<^verbatim>\<open>runJob\<close> holds the job object itself; a
  write to a job that has been evicted from \<^verbatim>\<open>jobs\<close> is invisible to the manager.
\<close>

datatype event =
    StartSync string PropertyRequest
  | StartSyncAll string "string list" PropertyRequest
  | CancelJob string
  | PropertySettled string PropertyRequest outcome
  | JobFinished string

fun apply_event :: "event \<Rightarrow> SyncManager \<Rightarrow> SyncManager" where
  "apply_event (StartSync new_id args) m = snd (startSync new_id args m)"
| "apply_event (StartSyncAll new_id listed args) m = snd (startSyncAll new_id listed args m)"
| "apply_event (CancelJob jobId) m = snd (cancelJob jobId m)"
| "apply_event (PropertySettled jobId req out) m = on_job jobId (syncProperty_settle req out) m"
| "apply_event (JobFinished jobId) m = on_job jobId runJob_finish m"

definition apply_events :: "event list \<Rightarrow> SyncManager \<Rightarrow> SyncManager" where
  "apply_events evs m = foldl (\<lambda>m ev. apply_event ev m) m evs"

section \<open>Resolving a property's date range\<close>

text \<open>The dates that the helpers \<^verbatim>\<open>defaultStartDate()\<close> (three months before today) and
  \<^verbatim>\<open>defaultEndDate()\<close> (today) return when \<^verbatim>\<open>syncOneProperty\<close> calls them.\<close>

record helper_dates =
  defaultStartDate :: isodate
  defaultEndDate :: isodate

text \<open>
  \<^verbatim>\<open>syncOneProperty\<close> up to the point where the chunks are known: either it returns the
  \<^verbatim>\<open>skipped\<close> result at once, or it goes on to fetch \<^verbatim>\<open>chunks\<close>, one
  \<^verbatim>\<open>fetchSearchAnalytics\<close> call sequence per chunk with \<^verbatim>\<open>startDate: chunk.from\<close> and
  \<^verbatim>\<open>endDate: chunk.to\<close> (a chunk is left out only when the job is cancelled before the
  chunk starts). Where the chunk loop does not return, neither does the plan (\<open>None\<close>).
\<close>

datatype sync_plan = SkipWith SyncJobResult | FetchChunks isodate isodate "chunk list"

text \<open>\<^verbatim>\<open>daySpan > CHUNK_DAYS ? buildChunks(startDate, endDate) : [{ from: startDate, to: endDate }]\<close>\<close>

definition plan_chunks :: "runtime \<Rightarrow> isodate \<Rightarrow> isodate \<Rightarrow> chunk list option" where
  "plan_chunks rt start_d end_d =
     (let daySpan = daysBetween start_d end_d
      in if daySpan > CHUNK_DAYS then buildChunks rt start_d end_d
         else Some [\<lparr>from_date = start_d, to_date = end_d\<rparr>])"

text \<open>The rest of \<^verbatim>\<open>syncOneProperty\<close> once \<^verbatim>\<open>startDate\<close> and \<^verbatim>\<open>endDate\<close> are fixed, as
  far as the chunk list.\<close>

definition fetch_from :: "runtime \<Rightarrow> isodate \<Rightarrow> isodate \<Rightarrow> sync_plan option" where
  "fetch_from rt start_d end_d = map_option (FetchChunks start_d end_d) (plan_chunks rt start_d end_d)"

text \<open>In \<^verbatim>\<open>syncOneProperty\<close>, \<open>end_d\<close> is the local \<^verbatim>\<open>endDate\<close> (the request's, or
  \<^verbatim>\<open>defaultEndDate()\<close>) and \<open>start_d\<close> the local \<^verbatim>\<open>startDate\<close>; \<^verbatim>\<open>!startDate\<close> and
  \<^verbatim>\<open>lastDate\<close> test for an absent date.\<close>

definition syncOneProperty_plan :: "runtime \<Rightarrow> helper_dates \<Rightarrow> table \<Rightarrow> PropertyRequest \<Rightarrow> sync_plan option" where
  "syncOneProperty_plan rt h db prop =
     (let end_d = (case endDate prop of Some e \<Rightarrow> e | None \<Rightarrow> defaultEndDate h)
      in case startDate prop of
           Some start_d \<Rightarrow> fetch_from rt start_d end_d
         | None \<Rightarrow>
            (case getLastSyncDate (siteUrl prop) db of
               Some lastDate \<Rightarrow>
                 (let nextDay = toISODate (setDate_plus rt (new_Date lastDate) 1)
                  in if nextDay \<le> end_d
                     then fetch_from rt nextDay end_d
                     else Some (SkipWith \<lparr>res_siteUrl = siteUrl prop, res_status = RSkipped,
                                    res_rowsFetched = 0, res_rowsInserted = 0, res_error = None\<rparr>))
             | None \<Rightarrow> fetch_from rt (defaultStartDate h) end_d))"

section \<open>Sample data for the worked examples\<close>

text \<open>
  Two runtimes. Both lower-case the letters \<^verbatim>\<open>A\<close> to \<^verbatim>\<open>Z\<close> and join a directory and a
  file name with one \<^verbatim>\<open>/\<close>, as JavaScript's \<^verbatim>\<open>toLowerCase\<close> and Node's \<^verbatim>\<open>path.join\<close>
  do on the country codes and on the directory \<^verbatim>\<open>data\<close> of the examples. The first runs in
  time zone UTC. The second runs in \<^verbatim>\<open>Europe/Berlin\<close> with the rule of the year 2024: local
  time is UTC+1, and UTC+2 from 2024-03-31T01:00Z (day 19813, local 03:00) to
  2024-10-27T01:00Z (day 20023, local 03:00).
\<close>

definition utc_runtime :: runtime where
  "utc_runtime = \<lparr>LocalTZA = (\<lambda>t isUTC. 0), String_toLowerCase = sql_LOWER,
     path_join = (\<lambda>dir name. dir @ ''/'' @ name)\<rparr>"

definition berlin_runtime :: runtime where
  "berlin_runtime =
     \<lparr>LocalTZA = (\<lambda>t isUTC.
        if isUTC
        then (if new_Date 19813 + 3600000 \<le> t \<and> t < new_Date 20023 + 3600000
              then 7200000 else 3600000)
        else (if new_Date 19813 + 3 * 3600000 \<le> t \<and> t < new_Date 20023 + 3 * 3600000
              then 7200000 else 3600000)),
      String_toLowerCase = sql_LOWER,
      path_join = (\<lambda>dir name. dir @ ''/'' @ name)\<rparr>"

text \<open>A row stored for 2024-03-31 (day 19813), and a request without a start date that asks
  for data up to that day.\<close>

definition row_march_31 :: SearchAnalyticsRow where
  "row_march_31 = \<lparr>date = 19813, query = Some ''shoes'', page = Some ''/a'', device = Some ''MOBILE'',
     country = Some ''deu'', searchAppearance = None, clicks = 2, impressions = 9,
     ctr = 2 / 9, position = 4\<rparr>"

definition request_until_march_31 :: PropertyRequest where
  "request_until_march_31 = \<lparr>siteUrl = ''sc-domain:example.com'', startDate = None,
     endDate = Some 19813, dimensions = None, searchType = None\<rparr>"

text \<open>Three stored rows seen on day 1000 under the default policy (cut-off day 910): an old
  zero-click row of a target country with 3 impressions, an old row with one click, and a
  recent zero-click row of a non-target country.\<close>

definition row_old_low_value :: SearchAnalyticsRow where
  "row_old_low_value = \<lparr>date = 100, query = Some ''shoes'', page = Some ''/a'', device = Some ''MOBILE'',
     country = Some ''usa'', searchAppearance = None, clicks = 0, impressions = 3,
     ctr = 0, position = 7\<rparr>"

definition row_old_clicked :: SearchAnalyticsRow where
  "row_old_clicked = \<lparr>date = 100, query = Some ''shoes'', page = Some ''/a'', device = Some ''DESKTOP'',
     country = Some ''usa'', searchAppearance = None, clicks = 1, impressions = 3,
     ctr = 1 / 3, position = 7\<rparr>"

definition row_recent :: SearchAnalyticsRow where
  "row_recent = \<lparr>date = 950, query = Some ''shoes'', page = Some ''/a'', device = Some ''MOBILE'',
     country = Some ''bra'', searchAppearance = None, clicks = 0, impressions = 1,
     ctr = 0, position = 7\<rparr>"

definition sample_table :: table where
  "sample_table = [row_old_low_value, row_old_clicked, row_recent]"

text \<open>A row fetched with \<^verbatim>\<open>dimensions = ['query', 'date']\<close>: \<^verbatim>\<open>transformRow\<close> leaves
  \<^verbatim>\<open>page\<close>, \<^verbatim>\<open>device\<close> and \<^verbatim>\<open>country\<close> \<^verbatim>\<open>null\<close>.\<close>

definition row_query_only :: SearchAnalyticsRow where
  "row_query_only = \<lparr>date = 100, query = Some ''shoes'', page = None, device = None,
     country = None, searchAppearance = None, clicks = 1, impressions = 3,
     ctr = 1 / 3, position = 7\<rparr>"

definition no_overrides :: PartialRetentionPolicy where
  "no_overrides = \<lparr>opt_recentDays = None, opt_targetMinImpressions = None,
     opt_pruneNonTargetZeroClicks = None, opt_targetCountries = None\<rparr>"

definition sample_helper_dates :: helper_dates where
  "sample_helper_dates = \<lparr>defaultStartDate = 908, defaultEndDate = 1000\<rparr>"

text \<open>A request without dates, and one that asks for data up to day 940 only.\<close>

definition request_open :: PropertyRequest where
  "request_open = \<lparr>siteUrl = ''sc-domain:example.com'', startDate = None, endDate = None,
     dimensions = None, searchType = None\<rparr>"

definition request_until_940 :: PropertyRequest where
  "request_until_940 = \<lparr>siteUrl = ''sc-domain:example.com'', startDate = None, endDate = Some 940,
     dimensions = None, searchType = None\<rparr>"

text \<open>A running single-property job that has just recorded the results \<open>rs\<close>.\<close>

definition job_with_results :: "SyncJobResult list \<Rightarrow> SyncJob" where
  "job_with_results rs = \<lparr>job_id = ''1a2b3c4d'', status = Syncing, cancelled = False,
     properties = [request_until_940], totalProperties = 1, completedProperties = length rs,
     results = rs, error = None\<rparr>"


text \<open>Fifty-one further job identifiers.\<close>

definition later_ids :: "string list" where
  "later_ids =
     [''a13f9c1e'', ''a23f9c1e'', ''a33f9c1e'', ''a43f9c1e'', ''a53f9c1e'', ''a63f9c1e'',
      ''a73f9c1e'', ''a83f9c1e'', ''a93f9c1e'', ''aa3f9c1e'', ''ab3f9c1e'', ''ac3f9c1e'',
      ''ad3f9c1e'', ''ae3f9c1e'', ''af3f9c1e'', ''b03f9c1e'', ''b13f9c1e'', ''b23f9c1e'',
      ''b33f9c1e'', ''b43f9c1e'', ''b53f9c1e'', ''b63f9c1e'', ''b73f9c1e'', ''b83f9c1e'',
      ''b93f9c1e'', ''ba3f9c1e'', ''bb3f9c1e'', ''bc3f9c1e'', ''bd3f9c1e'', ''be3f9c1e'',
      ''bf3f9c1e'', ''c03f9c1e'', ''c13f9c1e'', ''c23f9c1e'', ''c33f9c1e'', ''c43f9c1e'',
      ''c53f9c1e'', ''c63f9c1e'', ''c73f9c1e'', ''c83f9c1e'', ''c93f9c1e'', ''ca3f9c1e'',
      ''cb3f9c1e'', ''cc3f9c1e'', ''cd3f9c1e'', ''ce3f9c1e'', ''cf3f9c1e'', ''d03f9c1e'',
      ''d13f9c1e'', ''d23f9c1e'', ''d33f9c1e'']"

text \<open>The events of a job for the one request \<open>req\<close> that is started, finds the property up
  to date, and runs to its end.\<close>

definition quick_jobs :: "string list \<Rightarrow> PropertyRequest \<Rightarrow> event list" where
  "quick_jobs ids req =
     concat (map (\<lambda>i. [StartSync i req,
                         PropertySettled i req
                           (Returned \<lparr>res_siteUrl = siteUrl req, res_status = RSkipped,
                                      res_rowsFetched = 0, res_rowsInserted = 0, res_error = None\<rparr>),
                         JobFinished i]) ids)"

text \<open>A manager whose oldest job is still syncing while fifty-one later jobs have
  completed.\<close>

definition manager_with_long_job :: SyncManager where
  "manager_with_long_job =
     apply_events (StartSync ''9f3f9c1e'' request_open # quick_jobs later_ids request_open)
       new_SyncManager"

text \<open>The tracked jobs that are in a terminal state.\<close>

definition terminal_tracked :: "SyncManager \<Rightarrow> string list" where
  "terminal_tracked m =
     filter (\<lambda>i. case jobs m i of Some job \<Rightarrow> is_terminal (status job) | None \<Rightarrow> False) (jobOrder m)"

text \<open>A manager with one syncing job, and fifty jobs started after it.\<close>

definition manager_one_job :: SyncManager where
  "manager_one_job = snd (startSync ''9f3f9c1e'' request_open new_SyncManager)"

definition fifty_starts :: "PropertyRequest \<Rightarrow> event list" where
  "fifty_starts req = map (\<lambda>i. StartSync i req) (take 50 later_ids)"

section \<open>The chunk planner\<close>

subsection \<open>In a time zone with a fixed offset\<close>

text \<open>Where local time has the same offset from UTC at all times, \<^verbatim>\<open>setDate\<close> moves a
  time value by whole days, and the loop walks from midnight to midnight.\<close>

lemma setDate_plus_fixed_offset:
  assumes "\<And>t isUTC. LocalTZA rt t isUTC = off"
  shows "setDate_plus rt t k = t + k * 86400000"
  by (simp add: setDate_plus_def LocalTime_def UTC_of_local_def assms)

lemma buildChunks_loop_days:
  assumes "\<And>t isUTC. LocalTZA rt t isUTC = off"
  shows "buildChunks_loop rt (new_Date c) (new_Date e) acc =
     (if c \<le> e
      then buildChunks_loop rt (new_Date (min (c + 89) e + 1)) (new_Date e)
             (acc @ [\<lparr>from_date = c, to_date = min (c + 89) e\<rparr>])
      else Some acc)"
  by (subst buildChunks_loop.simps)
     (auto simp: setDate_plus_fixed_offset[OF assms] new_Date_def toISODate_def CHUNK_DAYS_def
        Let_def min_def)

lemma buildChunks_loop_closed:
  assumes fixed: "\<And>t isUTC. LocalTZA rt t isUTC = off"
  shows "buildChunks_loop rt (new_Date c) (new_Date e) acc =
     Some (acc @ map (\<lambda>i. \<lparr>from_date = c + 90 * int i, to_date = min (c + 90 * int i + 89) e\<rparr>)
                   [0..<nat ((e - c + 90) div 90)])"
proof (induction "nat (e - c + 1)" arbitrary: c acc rule: less_induct)
  case less
  note step = buildChunks_loop_days[OF fixed]
  show ?case
  proof (cases "c \<le> e")
    case False
    then have "nat ((e - c + 90) div 90) = 0" by simp
    with False show ?thesis by (subst step) simp
  next
    case True
    show ?thesis
    proof (cases "c + 89 \<ge> e")
      case True
      with \<open>c \<le> e\<close> have n: "nat ((e - c + 90) div 90) = 1" by simp
      have "buildChunks_loop rt (new_Date (e + 1)) (new_Date e)
              (acc @ [\<lparr>from_date = c, to_date = e\<rparr>]) = Some (acc @ [\<lparr>from_date = c, to_date = e\<rparr>])"
        by (subst step) simp
      with True \<open>c \<le> e\<close> n show ?thesis
        by (subst step) (simp add: min_def)
    next
      case False
      then have lt: "c + 90 \<le> e" by simp
      have n: "nat ((e - c + 90) div 90) = Suc (nat ((e - (c + 90) + 90) div 90))"
        using lt by (simp add: Suc_nat_eq_nat_zadd1 pos_imp_zdiv_nonneg_iff)
      have IH: "buildChunks_loop rt (new_Date (c + 90)) (new_Date e)
                  (acc @ [\<lparr>from_date = c, to_date = c + 89\<rparr>]) =
         Some ((acc @ [\<lparr>from_date = c, to_date = c + 89\<rparr>])
               @ map (\<lambda>i. \<lparr>from_date = (c + 90) + 90 * int i,
                            to_date = min ((c + 90) + 90 * int i + 89) e\<rparr>)
                   [0..<nat ((e - (c + 90) + 90) div 90)])"
        using lt by (intro less) simp
      have m: "min (c + 89) e = c + 89" using lt by simp
      have shift: "map (\<lambda>i. \<lparr>from_date = (c + 90) + 90 * int i,
                            to_date = min ((c + 90) + 90 * int i + 89) e\<rparr>)
                   [0..<nat ((e - (c + 90) + 90) div 90)]
          = map ((\<lambda>i. \<lparr>from_date = c + 90 * int i, to_date = min (c + 90 * int i + 89) e\<rparr>) \<circ> Suc)
                   [0..<nat ((e - (c + 90) + 90) div 90)]"
        by (simp add: comp_def algebra_simps)
      have "buildChunks_loop rt (new_Date c) (new_Date e) acc =
          buildChunks_loop rt (new_Date (c + 90)) (new_Date e)
            (acc @ [\<lparr>from_date = c, to_date = c + 89\<rparr>])"
        using lt by (subst step) (simp add: m add.commute)
      then show ?thesis
        unfolding IH shift n upt_conv_Cons[OF zero_less_Suc] map_Suc_upt[symmetric]
        using lt by (simp add: m)
    qed
  qed
qed

lemma ceiling_div_90: "\<lceil>real_of_int n / 90\<rceil> = (n + 89) div 90"
proof -
  define q where "q = (n + 89) div 90"
  define r where "r = (n + 89) mod 90"
  have "n + 89 = 90 * q + r" "0 \<le> r" "r < 90"
    by (simp_all add: q_def r_def)
  then have "90 * q - 90 < n" "n \<le> 90 * q" by linarith+
  then have "real_of_int q - 1 < real_of_int n / 90" "real_of_int n / 90 \<le> real_of_int q"
    by (simp_all add: field_simps)
  then show ?thesis unfolding q_def[symmetric] by (simp add: ceiling_eq_iff)
qed

text \<open>The facts about the list that the loop returns there.\<close>

lemma closed_chunks_length:
  assumes "cs = map (\<lambda>i. \<lparr>from_date = f + 90 * int i, to_date = min (f + 90 * int i + 89) t\<rparr>)
                    [0..<nat ((t - f + 90) div 90)]"
      and "f \<le> t"
  shows "int (length cs) = (t - f + 90) div 90"
  using assms by (simp add: pos_imp_zdiv_nonneg_iff)

lemma closed_chunks_nth:
  assumes "cs = map (\<lambda>i. \<lparr>from_date = f + 90 * int i, to_date = min (f + 90 * int i + 89) t\<rparr>)
                    [0..<nat ((t - f + 90) div 90)]"
      and "i < length cs"
  shows "cs ! i = \<lparr>from_date = f + 90 * int i, to_date = min (f + 90 * int i + 89) t\<rparr>"
  using assms by simp

lemma closed_chunks_index_bound:
  assumes cs: "cs = map (\<lambda>i. \<lparr>from_date = f + 90 * int i, to_date = min (f + 90 * int i + 89) t\<rparr>)
                    [0..<nat ((t - f + 90) div 90)]"
      and le: "f \<le> t" and i: "i < length cs"
  shows "f + 90 * int i + 90 \<le> t + 90"
proof -
  define d where "d = (t - f + 90) div 90"
  define r where "r = (t - f + 90) mod 90"
  have "int i < d" using i closed_chunks_length[OF cs le] by (simp add: d_def)
  moreover have "t - f + 90 = 90 * d + r" "0 \<le> r" by (simp_all add: d_def r_def)
  ultimately show ?thesis by linarith
qed

lemma closed_chunks_upper:
  assumes cs: "cs = map (\<lambda>i. \<lparr>from_date = f + 90 * int i, to_date = min (f + 90 * int i + 89) t\<rparr>)
                    [0..<nat ((t - f + 90) div 90)]"
      and le: "f \<le> t"
  shows "0 < length cs" and "t < f + 90 * int (length cs)"
proof -
  define d where "d = (t - f + 90) div 90"
  define r where "r = (t - f + 90) mod 90"
  have len: "int (length cs) = d" using closed_chunks_length[OF cs le] by (simp add: d_def)
  have dr: "t - f + 90 = 90 * d + r" "0 \<le> r" "r < 90" by (simp_all add: d_def r_def)
  from len dr le show "t < f + 90 * int (length cs)" by linarith
  from len dr le have "0 < int (length cs)" by linarith
  then show "0 < length cs" by simp
qed

lemma closed_chunks_partition:
  assumes cs: "cs = map (\<lambda>i. \<lparr>from_date = f + 90 * int i, to_date = min (f + 90 * int i + 89) t\<rparr>)
                    [0..<nat ((t - f + 90) div 90)]"
      and le: "f \<le> t"
  shows "cs \<noteq> []" and "from_date (hd cs) = f" and "to_date (last cs) = t"
    and "\<forall>i. Suc i < length cs \<longrightarrow> from_date (cs ! Suc i) = to_date (cs ! i) + 1"
    and "\<forall>i < length cs. from_date (cs ! i) \<le> to_date (cs ! i)"
    and "\<forall>i j. i < j \<and> j < length cs \<longrightarrow>
               {from_date (cs ! i)..to_date (cs ! i)} \<inter> {from_date (cs ! j)..to_date (cs ! j)} = {}"
    and "(\<Union>c \<in> set cs. {from_date c..to_date c}) = {f..t}"
    and "int (length cs) = \<lceil>real_of_int (t - f + 1) / real_of_int CHUNK_DAYS\<rceil>"
proof -
  note nth = closed_chunks_nth[OF cs]
  note bound = closed_chunks_index_bound[OF cs le]
  note upper = closed_chunks_upper[OF cs le]
  show ne: "cs \<noteq> []" using upper(1) by auto
  show "from_date (hd cs) = f"
    using upper(1) nth[of 0] by (simp add: hd_conv_nth ne)
  show "to_date (last cs) = t"
  proof -
    have "last cs = cs ! (length cs - 1)" using ne by (simp add: last_conv_nth)
    also have "\<dots> = \<lparr>from_date = f + 90 * int (length cs - 1),
         to_date = min (f + 90 * int (length cs - 1) + 89) t\<rparr>"
      using upper(1) by (intro nth) simp
    finally have "to_date (last cs) = min (f + 90 * int (length cs - 1) + 89) t" by simp
    moreover have "int (length cs - 1) = int (length cs) - 1" using ne by (cases cs) simp_all
    ultimately show ?thesis using upper(2) by simp
  qed
  show "\<forall>i. Suc i < length cs \<longrightarrow> from_date (cs ! Suc i) = to_date (cs ! i) + 1"
  proof (intro allI impI)
    fix i assume i: "Suc i < length cs"
    then show "from_date (cs ! Suc i) = to_date (cs ! i) + 1"
      using bound[OF i] by (simp add: nth)
  qed
  show "\<forall>i < length cs. from_date (cs ! i) \<le> to_date (cs ! i)"
  proof (intro allI impI)
    fix i assume i: "i < length cs"
    then show "from_date (cs ! i) \<le> to_date (cs ! i)"
      using bound[OF i] by (simp add: nth)
  qed
  show "\<forall>i j. i < j \<and> j < length cs \<longrightarrow>
               {from_date (cs ! i)..to_date (cs ! i)} \<inter> {from_date (cs ! j)..to_date (cs ! j)} = {}"
  proof (intro allI impI)
    fix i j assume ij: "i < j \<and> j < length cs"
    then have "int i + 1 \<le> int j" and i: "i < length cs" and j: "j < length cs" by simp_all
    then have "f + 90 * int i + 89 < f + 90 * int j" by linarith
    then have "to_date (cs ! i) < from_date (cs ! j)" by (simp add: nth[OF i] nth[OF j])
    then show "{from_date (cs ! i)..to_date (cs ! i)} \<inter> {from_date (cs ! j)..to_date (cs ! j)} = {}"
      by auto
  qed
  show "(\<Union>c \<in> set cs. {from_date c..to_date c}) = {f..t}"
  proof (intro set_eqI iffI)
    fix x assume "x \<in> (\<Union>c \<in> set cs. {from_date c..to_date c})"
    then obtain i where i: "i < length cs"
      and x: "from_date (cs ! i) \<le> x" "x \<le> to_date (cs ! i)"
      by (auto simp: in_set_conv_nth)
    from x i bound[OF i] show "x \<in> {f..t}" by (simp add: nth)
  next
    fix x assume xin: "x \<in> {f..t}"
    define q where "q = (x - f) div 90"
    define r where "r = (x - f) mod 90"
    have qr: "x - f = 90 * q + r" "0 \<le> r" "r < 90" by (simp_all add: q_def r_def)
    have q0: "0 \<le> q" using xin by (simp add: q_def pos_imp_zdiv_nonneg_iff)
    have "f + 90 * q \<le> t" using qr xin by simp
    with upper(2) have "q < int (length cs)" by linarith
    then have lt: "nat q < length cs" using q0 by simp
    then have "cs ! nat q \<in> set cs" by simp
    moreover have "from_date (cs ! nat q) \<le> x \<and> x \<le> to_date (cs ! nat q)"
      using lt q0 qr xin by (simp add: nth)
    ultimately show "x \<in> (\<Union>c \<in> set cs. {from_date c..to_date c})" by auto
  qed
  show "int (length cs) = \<lceil>real_of_int (t - f + 1) / real_of_int CHUNK_DAYS\<rceil>"
    using closed_chunks_length[OF cs le] ceiling_div_90[of "t - f + 1"] by (simp add: CHUNK_DAYS_def)
qed

text \<open>
  In a time zone with a fixed offset, and for \<open>dateFrom \<le> dateTo\<close>, \<^verbatim>\<open>buildChunks\<close> returns,
  and its chunks start at \<open>dateFrom\<close>, end at \<open>dateTo\<close>, follow one another day by day, are
  disjoint, cover exactly the inclusive range, and number \<open>\<lceil>(dateTo - dateFrom + 1) / 90\<rceil>\<close>.
\<close>

lemma buildChunks_partition_fixed_offset:
  assumes fixed: "\<And>t isUTC. LocalTZA rt t isUTC = off"
      and le: "dateFrom \<le> dateTo"
  shows "\<exists>cs. buildChunks rt dateFrom dateTo = Some cs
         \<and> cs \<noteq> [] \<and> from_date (hd cs) = dateFrom \<and> to_date (last cs) = dateTo
         \<and> (\<forall>i. Suc i < length cs \<longrightarrow> from_date (cs ! Suc i) = to_date (cs ! i) + 1)
         \<and> (\<forall>i < length cs. from_date (cs ! i) \<le> to_date (cs ! i))
         \<and> (\<forall>i j. i < j \<and> j < length cs \<longrightarrow>
               {from_date (cs ! i)..to_date (cs ! i)} \<inter> {from_date (cs ! j)..to_date (cs ! j)} = {})
         \<and> (\<Union>c \<in> set cs. {from_date c..to_date c}) = {dateFrom..dateTo}
         \<and> int (length cs) = \<lceil>real_of_int (dateTo - dateFrom + 1) / real_of_int CHUNK_DAYS\<rceil>"
proof -
  define cs where "cs = map (\<lambda>i. \<lparr>from_date = dateFrom + 90 * int i,
                                   to_date = min (dateFrom + 90 * int i + 89) dateTo\<rparr>)
                    [0..<nat ((dateTo - dateFrom + 90) div 90)]"
  have "buildChunks rt dateFrom dateTo = Some cs"
    unfolding buildChunks_def cs_def using buildChunks_loop_closed[OF fixed, of dateFrom dateTo "[]"]
    by simp
  with closed_chunks_partition[OF cs_def le] show ?thesis by blast
qed

text \<open>The count is taken over the days of the inclusive range. \<^verbatim>\<open>daysBetween\<close>, the
  difference of the two dates, is one less.\<close>

lemma daysBetween_eq: "daysBetween a b = b - a"
  unfolding daysBetween_def new_Date_def
proof -
  have "2 * (b * 86400000 - a * 86400000) + 1000 * 60 * 60 * 24 = (b - a) * (2 * 86400000) + 86400000"
    by (simp add: algebra_simps)
  then show "(2 * (b * 86400000 - a * 86400000) + 1000 * 60 * 60 * 24) div (2 * (1000 * 60 * 60 * 24)) = b - a"
    by simp
qed

subsection \<open>In a time zone with daylight saving\<close>

text \<open>
  Claim C4. For dates \<open>from \<le> to\<close> the chunk list should be contiguous, without overlap, with
  union exactly \<open>[from, to]\<close> and the last chunk clipped to \<open>to\<close>. Evaluated in the time zone
  \<^verbatim>\<open>Europe/Berlin\<close> on the range 2024-01-01 (day 19723) to 2024-06-28 (day 19902):
  \<^verbatim>\<open>buildChunks\<close> returns the two chunks 2024-01-01 to 2024-03-30 (day 19812) and
  2024-03-31 (day 19813) to 2024-06-27 (day 19901). The last chunk ends a day early and
  2024-06-28 is in no chunk: \<^verbatim>\<open>setDate\<close> moves the cursor on the local calendar, across
  the change to summer time, and \<^verbatim>\<open>toISOString\<close> prints the UTC day, which is then the day
  before.
\<close>

theorem C4_buildChunks_drops_last_day_across_dst:
  "(19723 :: int) \<le> 19902
   \<and> buildChunks berlin_runtime 19723 19902 =
        Some [\<lparr>from_date = 19723, to_date = 19812\<rparr>, \<lparr>from_date = 19813, to_date = 19901\<rparr>]"
  by code_simp

section \<open>Resuming from the last stored date\<close>

lemmas sample_defs = row_old_low_value_def row_old_clicked_def row_recent_def sample_table_def
  row_query_only_def no_overrides_def sample_helper_dates_def request_open_def
  request_until_940_def job_with_results_def row_march_31_def request_until_march_31_def

text \<open>A result that is not \<^verbatim>\<open>failed\<close> keeps a job that is not cancelled from ending
  \<^verbatim>\<open>failed\<close>.\<close>

lemma runJob_finish_not_failed:
  "\<not> cancelled job \<Longrightarrow> r \<in> set (results job) \<Longrightarrow> res_status r \<noteq> RFailed \<Longrightarrow>
     status (runJob_finish job) = Completed"
  by (auto simp: runJob_finish_def Let_def list_all_iff)

subsection \<open>In a time zone with a fixed offset\<close>

lemma nextDay_fixed_offset:
  assumes "\<And>t isUTC. LocalTZA rt t isUTC = off"
  shows "toISODate (setDate_plus rt (new_Date d) 1) = d + 1"
  by (simp add: setDate_plus_fixed_offset[OF assms] toISODate_def new_Date_def)

lemma plan_chunks_cover:
  assumes fixed: "\<And>t isUTC. LocalTZA rt t isUTC = off"
      and le: "s \<le> e"
  shows "\<exists>cs. plan_chunks rt s e = Some cs \<and> cs \<noteq> []
           \<and> (\<Union>c \<in> set cs. {from_date c..to_date c}) = {s..e}"
proof (cases "daysBetween s e > CHUNK_DAYS")
  case True
  then have "plan_chunks rt s e = buildChunks rt s e" by (simp add: plan_chunks_def Let_def)
  with buildChunks_partition_fixed_offset[OF fixed le] show ?thesis by auto
next
  case False
  then have "plan_chunks rt s e = Some [\<lparr>from_date = s, to_date = e\<rparr>]"
    by (simp add: plan_chunks_def Let_def)
  then show ?thesis by simp
qed

text \<open>
  In a time zone with a fixed offset, a property synced with no start date and last stored
  date \<open>D\<close> is fetched over chunks whose union is \<open>[D + 1, end_d]\<close> when \<open>D + 1 \<le> end_d\<close>, and
  is skipped with zero rows otherwise, which no job counts as a failure.
\<close>

lemma resume_from_last_synced_fixed_offset:
  assumes fixed: "\<And>t isUTC. LocalTZA rt t isUTC = off"
      and "startDate prop = None"
      and "getLastSyncDate (siteUrl prop) db = Some D"
  shows "(let end_d = (case endDate prop of Some e \<Rightarrow> e | None \<Rightarrow> defaultEndDate h) in
          (D + 1 \<le> end_d \<longrightarrow>
             (\<exists>chunks. syncOneProperty_plan rt h db prop = Some (FetchChunks (D + 1) end_d chunks)
                \<and> chunks \<noteq> []
                \<and> (\<Union>c \<in> set chunks. {from_date c..to_date c}) = {D + 1..end_d}))
        \<and> (end_d < D + 1 \<longrightarrow>
             (\<exists>r. syncOneProperty_plan rt h db prop = Some (SkipWith r)
                \<and> res_status r = RSkipped \<and> res_rowsFetched r = 0 \<and> res_rowsInserted r = 0
                \<and> (\<forall>job. \<not> cancelled job \<and> r \<in> set (results job)
                      \<longrightarrow> status (runJob_finish job) = Completed))))"
proof -
  define end_d where "end_d = (case endDate prop of Some e \<Rightarrow> e | None \<Rightarrow> defaultEndDate h)"
  note next_day = nextDay_fixed_offset[OF fixed]
  have fetch: "D + 1 \<le> end_d \<Longrightarrow>
      syncOneProperty_plan rt h db prop = fetch_from rt (D + 1) end_d"
    using assms(2,3) by (simp add: syncOneProperty_plan_def Let_def next_day end_d_def)
  have skip: "end_d < D + 1 \<Longrightarrow>
      syncOneProperty_plan rt h db prop = Some (SkipWith \<lparr>res_siteUrl = siteUrl prop,
         res_status = RSkipped, res_rowsFetched = 0, res_rowsInserted = 0, res_error = None\<rparr>)"
    using assms(2,3) by (simp add: syncOneProperty_plan_def Let_def next_day end_d_def)
  have A: "D + 1 \<le> end_d \<longrightarrow>
             (\<exists>chunks. syncOneProperty_plan rt h db prop = Some (FetchChunks (D + 1) end_d chunks)
                \<and> chunks \<noteq> []
                \<and> (\<Union>c \<in> set chunks. {from_date c..to_date c}) = {D + 1..end_d})"
  proof
    assume le: "D + 1 \<le> end_d"
    from plan_chunks_cover[OF fixed le] obtain cs where
      cs: "plan_chunks rt (D + 1) end_d = Some cs" "cs \<noteq> []"
          "(\<Union>c \<in> set cs. {from_date c..to_date c}) = {D + 1..end_d}"
      by blast
    from fetch[OF le] cs(1)
    have "syncOneProperty_plan rt h db prop = Some (FetchChunks (D + 1) end_d cs)"
      by (simp add: fetch_from_def)
    with cs(2,3) show "\<exists>chunks. syncOneProperty_plan rt h db prop = Some (FetchChunks (D + 1) end_d chunks)
                \<and> chunks \<noteq> []
                \<and> (\<Union>c \<in> set chunks. {from_date c..to_date c}) = {D + 1..end_d}"
      by blast
  qed
  have B: "end_d < D + 1 \<longrightarrow>
             (\<exists>r. syncOneProperty_plan rt h db prop = Some (SkipWith r)
                \<and> res_status r = RSkipped \<and> res_rowsFetched r = 0 \<and> res_rowsInserted r = 0
                \<and> (\<forall>job. \<not> cancelled job \<and> r \<in> set (results job)
                      \<longrightarrow> status (runJob_finish job) = Completed))"
  proof
    assume lt: "end_d < D + 1"
    let ?r = "\<lparr>res_siteUrl = siteUrl prop, res_status = RSkipped,
                res_rowsFetched = 0, res_rowsInserted = 0, res_error = None\<rparr>"
    have "\<forall>job. \<not> cancelled job \<and> ?r \<in> set (results job)
                      \<longrightarrow> status (runJob_finish job) = Completed"
      using runJob_finish_not_failed[where r = ?r] by simp
    with skip[OF lt] show "\<exists>r. syncOneProperty_plan rt h db prop = Some (SkipWith r)
                \<and> res_status r = RSkipped \<and> res_rowsFetched r = 0 \<and> res_rowsInserted r = 0
                \<and> (\<forall>job. \<not> cancelled job \<and> r \<in> set (results job)
                      \<longrightarrow> status (runJob_finish job) = Completed)"
      by (intro exI[of _ ?r]) simp
  qed
  show ?thesis unfolding Let_def end_d_def[symmetric] using A B by blast
qed

text \<open>In time zone UTC, with day 950 the last stored: an open request is fetched from day
  951, and a request up to day 940 is skipped.\<close>

lemma resume_in_utc_example:
  "syncOneProperty_plan utc_runtime sample_helper_dates sample_table request_open
        = Some (FetchChunks 951 1000 [\<lparr>from_date = 951, to_date = 1000\<rparr>])"
  "syncOneProperty_plan utc_runtime sample_helper_dates sample_table request_until_940
        = Some (SkipWith \<lparr>res_siteUrl = ''sc-domain:example.com'', res_status = RSkipped,
                    res_rowsFetched = 0, res_rowsInserted = 0, res_error = None\<rparr>)"
  by code_simp+

subsection \<open>In a time zone with daylight saving\<close>

text \<open>
  Claim C2. With no explicit start date and last stored date \<open>D\<close>, the sync should fetch only
  \<open>[D + 1, end]\<close>, and should return \<^verbatim>\<open>skipped\<close> with zero rows when \<open>D + 1\<close> is after the end
  date. Evaluated in the time zone \<^verbatim>\<open>Europe/Berlin\<close> with \<open>D\<close> = 2024-03-31 (day 19813), the
  day of the change to summer time: \<^verbatim>\<open>setDate(getDate() + 1)\<close> gives local 2024-04-01 01:00,
  which is 2024-03-31T23:00Z, so \<^verbatim>\<open>nextDay\<close> is 2024-03-31 again. With the end date
  2024-03-31 the property is not skipped: the day \<open>D\<close> is fetched once more. With the end
  date 2024-04-07 (day 19820) the fetch starts at \<open>D\<close>, not at \<open>D + 1\<close>.
\<close>

theorem C2_resume_repeats_last_day_across_dst:
  "startDate request_until_march_31 = None
   \<and> getLastSyncDate (siteUrl request_until_march_31) [row_march_31] = Some 19813
   \<and> toISODate (setDate_plus berlin_runtime (new_Date 19813) 1) = 19813
   \<and> syncOneProperty_plan berlin_runtime \<lparr>defaultStartDate = 19730, defaultEndDate = 19820\<rparr>
        [row_march_31] request_until_march_31
      = Some (FetchChunks 19813 19813 [\<lparr>from_date = 19813, to_date = 19813\<rparr>])
   \<and> syncOneProperty_plan berlin_runtime \<lparr>defaultStartDate = 19730, defaultEndDate = 19820\<rparr>
        [row_march_31] request_open
      = Some (FetchChunks 19813 19820 [\<lparr>from_date = 19813, to_date = 19820\<rparr>])"
  by code_simp

section \<open>Retention: what a prune run deletes\<close>

lemma prune_table:
  fixes rt :: runtime and now :: int and policy :: PartialRetentionPolicy
  defines "p \<equiv> merge_policy policy"
  defines "c \<equiv> cutoffDate_of rt now p"
  defines "ts \<equiv> map (String_toLowerCase rt) (targetCountries p)"
  shows "fst (prune rt now u policy tbl) =
     filter (\<lambda>r. \<not> (target_low_value c (targetMinImpressions p) ts r
                    \<or> (pruneNonTargetZeroClicks p \<and> non_target_zero_click c ts r))) tbl"
  unfolding p_def c_def ts_def
  by (auto simp: prune_def delete_where_def Let_def intro: filter_cong)

lemma mset_minus_filter: "mset xs - mset (filter P xs) = mset (filter (\<lambda>x. \<not> P x) xs)"
proof -
  have "mset xs = mset (filter P xs) + mset (filter (\<lambda>x. \<not> P x) xs)"
    by (induction xs) auto
  then show ?thesis by (metis add_diff_cancel_left')
qed

lemma in_and_not_in_exclusive:
  "\<not> (sql_in x vs = Some True \<and> sql_not_in x vs = Some True)"
  by (auto simp: sql_not_in_def)

lemma non_target_after_target:
  "filter (\<lambda>r. \<not> target_low_value c mi ts r \<and> non_target_zero_click c ts r) tbl
     = filter (non_target_zero_click c ts) tbl"
proof -
  have "non_target_zero_click c ts r \<Longrightarrow> \<not> target_low_value c mi ts r" for r
    using in_and_not_in_exclusive by (auto simp: non_target_zero_click_def target_low_value_def)
  then show ?thesis by (auto intro: filter_cong)
qed

lemma prune_rowsDeleted:
  fixes rt :: runtime and now :: int and policy :: PartialRetentionPolicy
  defines "p \<equiv> merge_policy policy"
  defines "c \<equiv> cutoffDate_of rt now p"
  defines "ts \<equiv> map (String_toLowerCase rt) (targetCountries p)"
  shows "rowsDeleted (snd (prune rt now u policy tbl)) =
     int (count_where (target_low_value c (targetMinImpressions p) ts) tbl)
     + (if pruneNonTargetZeroClicks p then int (count_where (non_target_zero_click c ts) tbl) else 0)"
  unfolding p_def c_def ts_def
  by (simp add: prune_def delete_where_def count_where_def Let_def non_target_after_target)

lemma length_filter_disjoint:
  "(\<And>x. \<not> (P x \<and> Q x)) \<Longrightarrow>
     length (filter (\<lambda>x. P x \<or> Q x) xs) = length (filter P xs) + length (filter Q xs)"
  by (induction xs) auto

lemma length_filter_compl:
  "int (length (filter (\<lambda>x. \<not> P x) xs)) = int (length xs) - int (length (filter P xs))"
  using sum_length_filter_compl[of P xs] by linarith

lemma prune_rowsDeleted_actual:
  "rowsDeleted (snd (prune rt now u policy tbl)) = int (length tbl) - int (length (fst (prune rt now u policy tbl)))"
proof -
  define p where "p = merge_policy policy"
  define c where "c = cutoffDate_of rt now p"
  define ts where "ts = map (String_toLowerCase rt) (targetCountries p)"
  let ?tl = "target_low_value c (targetMinImpressions p) ts"
  let ?nt = "\<lambda>r. pruneNonTargetZeroClicks p \<and> non_target_zero_click c ts r"
  have excl: "\<not> (?tl r \<and> ?nt r)" for r
    using in_and_not_in_exclusive by (auto simp: non_target_zero_click_def target_low_value_def)
  have "int (length tbl) - int (length (fst (prune rt now u policy tbl)))
      = int (length (filter (\<lambda>r. ?tl r \<or> ?nt r) tbl))"
    unfolding prune_table p_def[symmetric] c_def[symmetric] ts_def[symmetric]
    using length_filter_compl[of "\<lambda>r. ?tl r \<or> ?nt r" tbl] by simp
  also have "\<dots> = int (length (filter ?tl tbl)) + int (length (filter ?nt tbl))"
    using length_filter_disjoint[of ?tl ?nt tbl] excl by simp
  also have "\<dots> = rowsDeleted (snd (prune rt now u policy tbl))"
    unfolding prune_rowsDeleted p_def[symmetric] c_def[symmetric] ts_def[symmetric]
    by (simp add: count_where_def)
  finally show ?thesis by simp
qed

text \<open>
  Claim C5. For every table, clock reading and retention policy, every row that a prune run
  removes has \<open>clicks = 0\<close> and a date strictly before the cut-off date (today minus
  \<open>recentDays\<close>). A row with \<open>clicks > 0\<close>, and a row dated on or after the cut-off, is
  in the table after the run as often as before, whatever its age, country or the policy
  flags. The reported \<^verbatim>\<open>rowsDeleted\<close> is the number of rows removed.
\<close>

theorem C5_prune_only_old_zero_click:
  "(\<forall>r \<in># mset tbl - mset (fst (prune rt now u policy tbl)).
        clicks r = 0 \<and> date r < cutoffDate_of rt now (merge_policy policy))
   \<and> (\<forall>r :: SearchAnalyticsRow.
        clicks r > 0 \<or> date r \<ge> cutoffDate_of rt now (merge_policy policy)
        \<longrightarrow> count (mset (fst (prune rt now u policy tbl))) r = count (mset tbl) r)
   \<and> rowsDeleted (snd (prune rt now u policy tbl))
        = int (size (mset tbl - mset (fst (prune rt now u policy tbl))))"
proof -
  define p where "p = merge_policy policy"
  define c where "c = cutoffDate_of rt now p"
  define ts where "ts = map (String_toLowerCase rt) (targetCountries p)"
  define del where "del = (\<lambda>r. target_low_value c (targetMinImpressions p) ts r
                    \<or> (pruneNonTargetZeroClicks p \<and> non_target_zero_click c ts r))"
  have tbl': "fst (prune rt now u policy tbl) = filter (\<lambda>r. \<not> del r) tbl"
    unfolding del_def ts_def c_def p_def by (rule prune_table)
  have old: "del r \<Longrightarrow> clicks r = 0 \<and> date r < c" for r
    by (auto simp: del_def target_low_value_def non_target_zero_click_def)
  have rem: "mset tbl - mset (fst (prune rt now u policy tbl)) = mset (filter del tbl)"
    unfolding tbl' using mset_minus_filter[of tbl "\<lambda>r. \<not> del r"] by simp
  have 1: "\<forall>r \<in># mset tbl - mset (fst (prune rt now u policy tbl)). clicks r = 0 \<and> date r < c"
    unfolding rem using old by auto
  have 2: "\<forall>r :: SearchAnalyticsRow. clicks r > 0 \<or> date r \<ge> c
        \<longrightarrow> count (mset (fst (prune rt now u policy tbl))) r = count (mset tbl) r"
  proof (intro allI impI)
    fix r :: SearchAnalyticsRow assume a: "clicks r > 0 \<or> date r \<ge> c"
    then have "\<not> del r" using old[of r] by auto
    then show "count (mset (fst (prune rt now u policy tbl))) r = count (mset tbl) r"
      unfolding tbl' by simp
  qed
  have "size (mset tbl - mset (fst (prune rt now u policy tbl))) = length (filter del tbl)"
    unfolding rem by (simp only: size_mset)
  moreover have "int (length (filter del tbl)) = int (length tbl) - int (length (fst (prune rt now u policy tbl)))"
    unfolding tbl' using length_filter_compl[of "\<lambda>r. \<not> del r" tbl] by simp
  ultimately have 3: "rowsDeleted (snd (prune rt now u policy tbl))
        = int (size (mset tbl - mset (fst (prune rt now u policy tbl))))"
    using prune_rowsDeleted_actual[of rt now u policy tbl] by simp
  show ?thesis using 1 2 3 unfolding c_def p_def by blast
qed


theorem C5_prune_only_old_zero_click_witness:
  "fst (prune utc_runtime (new_Date 1000) ''sc-domain:example.com'' no_overrides sample_table)
       = [row_old_clicked, row_recent]
   \<and> row_old_low_value \<in># mset sample_table
        - mset (fst (prune utc_runtime (new_Date 1000) ''sc-domain:example.com'' no_overrides sample_table))
   \<and> clicks row_old_low_value = 0
   \<and> date row_old_low_value < cutoffDate_of utc_runtime (new_Date 1000) (merge_policy no_overrides)
   \<and> clicks row_old_clicked > 0
   \<and> count (mset (fst (prune utc_runtime (new_Date 1000) ''sc-domain:example.com'' no_overrides sample_table)))
        row_old_clicked = count (mset sample_table) row_old_clicked
   \<and> date row_recent \<ge> cutoffDate_of utc_runtime (new_Date 1000) (merge_policy no_overrides)
   \<and> count (mset (fst (prune utc_runtime (new_Date 1000) ''sc-domain:example.com'' no_overrides sample_table)))
        row_recent = count (mset sample_table) row_recent"
proof -
  let ?after = "fst (prune utc_runtime (new_Date 1000) ''sc-domain:example.com'' no_overrides sample_table)"
  have e: "?after = [row_old_clicked, row_recent]"
    by code_simp
  have m: "row_old_low_value \<in># mset sample_table - mset ?after"
    unfolding e by (simp add: sample_defs)
  have c: "cutoffDate_of utc_runtime (new_Date 1000) (merge_policy no_overrides) = 910"
    by code_simp
  have k: "clicks row_old_clicked > 0" "date row_recent \<ge> 910"
    by (simp_all add: sample_defs)
  note inst = C5_prune_only_old_zero_click[of sample_table utc_runtime "new_Date 1000"
      "''sc-domain:example.com''" no_overrides]
  from inst m have 1: "clicks row_old_low_value = 0
      \<and> date row_old_low_value < cutoffDate_of utc_runtime (new_Date 1000) (merge_policy no_overrides)"
    by blast
  from inst k(1) have 2: "count (mset ?after) row_old_clicked = count (mset sample_table) row_old_clicked"
    by blast
  from inst k(2) have 3: "count (mset ?after) row_recent = count (mset sample_table) row_recent"
    unfolding c by blast
  show ?thesis using e m 1 2 3 k unfolding c by blast
qed

text \<open>
  Claim C6. For every table, clock reading and retention policy, \<^verbatim>\<open>preview\<close> leaves the
  table as it is, and its \<^verbatim>\<open>wouldDelete\<close> equals the \<^verbatim>\<open>rowsDeleted\<close> that \<^verbatim>\<open>prune\<close> reports
  for the same policy on the same table, which is the number of rows that \<^verbatim>\<open>prune\<close> removes.
  \<^verbatim>\<open>wouldDelete\<close> is the target low-value count plus, when \<^verbatim>\<open>pruneNonTargetZeroClicks\<close> is
  set, the non-target zero-click count; \<^verbatim>\<open>wouldKeep\<close> is \<^verbatim>\<open>totalRows - wouldDelete\<close>, and
  \<^verbatim>\<open>totalRows\<close> is the number of rows.
\<close>

theorem C6_preview_matches_prune:
  "fst (preview rt now u policy tbl) = tbl
   \<and> wouldDelete (snd (preview rt now u policy tbl)) = rowsDeleted (snd (prune rt now u policy tbl))
   \<and> wouldDelete (snd (preview rt now u policy tbl))
        = int (length tbl) - int (length (fst (prune rt now u policy tbl)))
   \<and> wouldDelete (snd (preview rt now u policy tbl))
        = targetLowValue (breakdown (snd (preview rt now u policy tbl)))
          + (if pruneNonTargetZeroClicks (merge_policy policy)
             then nonTargetZeroClick (breakdown (snd (preview rt now u policy tbl))) else 0)
   \<and> wouldKeep (snd (preview rt now u policy tbl))
        = totalRows (snd (preview rt now u policy tbl)) - wouldDelete (snd (preview rt now u policy tbl))
   \<and> totalRows (snd (preview rt now u policy tbl)) = int (length tbl)"
proof -
  have a: "fst (preview rt now u policy tbl) = tbl" by (simp add: preview_def Let_def)
  have b: "wouldDelete (snd (preview rt now u policy tbl)) = rowsDeleted (snd (prune rt now u policy tbl))"
    unfolding prune_rowsDeleted by (simp add: preview_def Let_def)
  have c: "wouldDelete (snd (preview rt now u policy tbl))
        = targetLowValue (breakdown (snd (preview rt now u policy tbl)))
          + (if pruneNonTargetZeroClicks (merge_policy policy)
             then nonTargetZeroClick (breakdown (snd (preview rt now u policy tbl))) else 0)"
    by (simp add: preview_def Let_def)
  have d: "wouldKeep (snd (preview rt now u policy tbl))
        = totalRows (snd (preview rt now u policy tbl)) - wouldDelete (snd (preview rt now u policy tbl))"
    by (simp add: preview_def Let_def)
  have e: "totalRows (snd (preview rt now u policy tbl)) = int (length tbl)"
    by (simp add: preview_def Let_def)
  show ?thesis using a b c d e prune_rowsDeleted_actual[of rt now u policy tbl] by simp
qed


theorem C6_preview_matches_prune_witness:
  "fst (preview utc_runtime (new_Date 1000) ''sc-domain:example.com'' no_overrides sample_table) = sample_table
   \<and> wouldDelete (snd (preview utc_runtime (new_Date 1000) ''sc-domain:example.com'' no_overrides sample_table)) = 1
   \<and> rowsDeleted (snd (prune utc_runtime (new_Date 1000) ''sc-domain:example.com'' no_overrides sample_table)) = 1
   \<and> wouldKeep (snd (preview utc_runtime (new_Date 1000) ''sc-domain:example.com'' no_overrides sample_table)) = 2"
proof -
  have "wouldDelete (snd (preview utc_runtime (new_Date 1000) ''sc-domain:example.com'' no_overrides sample_table)) = 1"
    by code_simp
  moreover have "totalRows (snd (preview utc_runtime (new_Date 1000) ''sc-domain:example.com'' no_overrides sample_table)) = 3"
    by code_simp
  ultimately show ?thesis
    using C6_preview_matches_prune[of utc_runtime "new_Date 1000" "''sc-domain:example.com''" no_overrides sample_table]
    by simp
qed

section \<open>The batch writer\<close>

lemma batch_loop_count: "snd (insertSearchAnalyticsBatch_loop rows tbl n) = n + length rows"
  by (induction rows arbitrary: tbl n) auto

lemma batch_loop_table: "fst (insertSearchAnalyticsBatch_loop rows tbl n) = fst (insertSearchAnalyticsBatch_loop rows tbl 0)"
  by (induction rows arbitrary: tbl n) (auto, metis)

lemma batch_loop_append:
  "fst (insertSearchAnalyticsBatch_loop rows (T @ S) n) =
     filter (\<lambda>old. \<forall>r \<in> set rows. \<not> idx_sa_unique_conflict old r) T
       @ fst (insertSearchAnalyticsBatch_loop rows S n)"
proof (induction rows arbitrary: T S n)
  case Nil
  then show ?case by simp
next
  case (Cons row rows)
  have "insert_or_replace row (T @ S) = filter (\<lambda>old. \<not> idx_sa_unique_conflict old row) T @ insert_or_replace row S"
    by (simp add: insert_or_replace_def)
  then show ?case using Cons.IH[of "filter (\<lambda>old. \<not> idx_sa_unique_conflict old row) T" "insert_or_replace row S" "n + 1"]
    by (auto intro: filter_cong)
qed

lemma batch_loop_set:
  "set (fst (insertSearchAnalyticsBatch_loop rows S n)) \<subseteq> set S \<union> set rows"
proof (induction rows arbitrary: S n)
  case Nil
  then show ?case by simp
next
  case (Cons row rows)
  have "set (insert_or_replace row S) \<subseteq> set S \<union> {row}"
    by (auto simp: insert_or_replace_def)
  with Cons.IH[of "insert_or_replace row S" "n + 1"] show ?case by auto
qed

lemma batch_table:
  "fst (insertSearchAnalyticsBatch rows tbl) =
     filter (\<lambda>old. \<forall>r \<in> set rows. \<not> idx_sa_unique_conflict old r) tbl
       @ fst (insertSearchAnalyticsBatch rows [])"
  unfolding insertSearchAnalyticsBatch_def using batch_loop_append[of rows tbl "[]" 0] by simp

lemma batch_idempotent_on_full_keys:
  assumes full: "\<forall>r \<in> set rows. query r \<noteq> None \<and> page r \<noteq> None \<and> device r \<noteq> None \<and> country r \<noteq> None"
  shows "fst (insertSearchAnalyticsBatch rows (fst (insertSearchAnalyticsBatch rows tbl)))
           = fst (insertSearchAnalyticsBatch rows tbl)"
proof -
  let ?free = "\<lambda>old. \<forall>r \<in> set rows. \<not> idx_sa_unique_conflict old r"
  let ?W = "fst (insertSearchAnalyticsBatch rows [])"
  have "set ?W \<subseteq> set rows"
    unfolding insertSearchAnalyticsBatch_def using batch_loop_set[of rows "[]" 0] by simp
  moreover have "idx_sa_unique_conflict r r" if "r \<in> set rows" for r
    using full that by (simp add: idx_sa_unique_conflict_def)
  ultimately have "filter ?free ?W = []"
    by (auto simp: filter_empty_conv)
  then have "filter ?free (filter ?free tbl @ ?W) = filter ?free tbl" by simp
  then show ?thesis
    using batch_table[of rows "filter ?free tbl @ ?W"] batch_table[of rows tbl] by simp
qed

text \<open>
  On batches in which every record has all of \<^verbatim>\<open>query\<close>, \<^verbatim>\<open>page\<close>, \<^verbatim>\<open>device\<close> and
  \<^verbatim>\<open>country\<close>, the unique index identifies a record with itself, and writing a batch a
  second time changes nothing (\<open>batch_idempotent_on_full_keys\<close> above). A record fetched
  with a reduced dimension list has \<^verbatim>\<open>null\<close> in the other dimension columns, and such a
  record never collides on the index.
\<close>

text \<open>
  Claim C3. Writing a batch twice through \<^verbatim>\<open>insertSearchAnalyticsBatch\<close> should leave the
  table as writing it once does, the second write adding no row. Evaluated on the batch
  that holds the one record \<open>row_query_only\<close> (fetched with \<^verbatim>\<open>dimensions = ['query', 'date']\<close>)
  and the empty table: the first write stores one row, the second write stores the same
  record again, and the table holds two rows.
\<close>

theorem C3_second_write_duplicates_null_dimension_rows:
  "fst (insertSearchAnalyticsBatch [row_query_only] []) = [row_query_only]
   \<and> fst (insertSearchAnalyticsBatch [row_query_only]
            (fst (insertSearchAnalyticsBatch [row_query_only] [])))
        = [row_query_only, row_query_only]
   \<and> snd (insertSearchAnalyticsBatch [row_query_only]
            (fst (insertSearchAnalyticsBatch [row_query_only] []))) = 1"
  by (simp add: insertSearchAnalyticsBatch_def insert_or_replace_def idx_sa_unique_conflict_def
      row_query_only_def)

section \<open>The last stored date\<close>




text \<open>The file is chosen by the sanitized name: the domain property and the URL-prefix
  property of one host are stored in the same file.\<close>

lemma getDbPath_shared:
  "getDbPath utc_runtime ''data'' ''sc-domain:example.com''
     = getDbPath utc_runtime ''data'' ''https://example.com/''"
  by code_simp

section \<open>Cancelling a job\<close>

text \<open>
  Claim C9. \<^verbatim>\<open>cancelJob(jobId)\<close> returns true exactly when the registry holds a job under
  \<open>jobId\<close> whose status is not terminal. When it returns true, that job's \<^verbatim>\<open>cancelled\<close> flag
  is set (and its status is \<^verbatim>\<open>cancelled\<close>), and no other job and nothing else in the manager
  changes. When it returns false (unknown job, or a job that is completed, failed or
  cancelled) the manager is unchanged.
\<close>

theorem C9_cancelJob_accepts_only_active:
  "(fst (cancelJob jobId m) \<longleftrightarrow> (\<exists>job. jobs m jobId = Some job \<and> \<not> is_terminal (status job)))
   \<and> (fst (cancelJob jobId m) \<longrightarrow>
         (\<exists>job. jobs m jobId = Some job
            \<and> jobs (snd (cancelJob jobId m)) jobId = Some (job\<lparr>cancelled := True, status := Cancelled\<rparr>))
         \<and> (\<forall>other. other \<noteq> jobId \<longrightarrow> jobs (snd (cancelJob jobId m)) other = jobs m other)
         \<and> jobOrder (snd (cancelJob jobId m)) = jobOrder m)
   \<and> (\<not> fst (cancelJob jobId m) \<longrightarrow> snd (cancelJob jobId m) = m)"
proof (cases "jobs m jobId")
  case None
  then have "cancelJob jobId m = (False, m)" by (simp add: cancelJob_def)
  with None show ?thesis by simp
next
  case (Some job)
  show ?thesis
  proof (cases "is_terminal (status job)")
    case True
    then have "cancelJob jobId m = (False, m)"
      using Some by (simp add: cancelJob_def is_terminal_def)
    with Some True show ?thesis by simp
  next
    case False
    then have "cancelJob jobId m =
        (True, m\<lparr>jobs := (jobs m)(jobId \<mapsto> job\<lparr>cancelled := True, status := Cancelled\<rparr>)\<rparr>)"
      using Some by (simp add: cancelJob_def is_terminal_def)
    with Some False show ?thesis by simp
  qed
qed

theorem C9_cancelJob_accepts_only_active_witness:
  "fst (cancelJob ''9f3f9c1e'' manager_one_job)
   \<and> jobs manager_one_job ''9f3f9c1e'' =
        Some \<lparr>job_id = ''9f3f9c1e'', status = Syncing, cancelled = False,
              properties = [request_open], totalProperties = 1, completedProperties = 0,
              results = [], error = None\<rparr>
   \<and> jobs (snd (cancelJob ''9f3f9c1e'' manager_one_job)) ''9f3f9c1e'' =
        Some \<lparr>job_id = ''9f3f9c1e'', status = Cancelled, cancelled = True,
              properties = [request_open], totalProperties = 1, completedProperties = 0,
              results = [], error = None\<rparr>
   \<and> \<not> fst (cancelJob ''9f3f9c1e'' (snd (cancelJob ''9f3f9c1e'' manager_one_job)))
   \<and> snd (cancelJob ''9f3f9c1e'' (snd (cancelJob ''9f3f9c1e'' manager_one_job)))
        = snd (cancelJob ''9f3f9c1e'' manager_one_job)
   \<and> \<not> fst (cancelJob ''a13f9c1e'' manager_one_job)
   \<and> snd (cancelJob ''a13f9c1e'' manager_one_job) = manager_one_job"
proof -
  have j: "jobs manager_one_job ''9f3f9c1e'' =
        Some \<lparr>job_id = ''9f3f9c1e'', status = Syncing, cancelled = False,
              properties = [request_open], totalProperties = 1, completedProperties = 0,
              results = [], error = None\<rparr>"
    by code_simp
  have n: "jobs manager_one_job ''a13f9c1e'' = None"
    by code_simp
  from j have acc: "fst (cancelJob ''9f3f9c1e'' manager_one_job)"
    using C9_cancelJob_accepts_only_active[of "''9f3f9c1e''" manager_one_job]
    by (simp add: is_terminal_def)
  with j have upd: "jobs (snd (cancelJob ''9f3f9c1e'' manager_one_job)) ''9f3f9c1e'' =
        Some \<lparr>job_id = ''9f3f9c1e'', status = Cancelled, cancelled = True,
              properties = [request_open], totalProperties = 1, completedProperties = 0,
              results = [], error = None\<rparr>"
    using C9_cancelJob_accepts_only_active[of "''9f3f9c1e''" manager_one_job] by auto
  from upd have again: "\<not> fst (cancelJob ''9f3f9c1e'' (snd (cancelJob ''9f3f9c1e'' manager_one_job)))"
    using C9_cancelJob_accepts_only_active[of "''9f3f9c1e''" "snd (cancelJob ''9f3f9c1e'' manager_one_job)"]
    by (simp add: is_terminal_def)
  then have same: "snd (cancelJob ''9f3f9c1e'' (snd (cancelJob ''9f3f9c1e'' manager_one_job)))
        = snd (cancelJob ''9f3f9c1e'' manager_one_job)"
    using C9_cancelJob_accepts_only_active[of "''9f3f9c1e''" "snd (cancelJob ''9f3f9c1e'' manager_one_job)"]
    by blast
  from n have unknown: "\<not> fst (cancelJob ''a13f9c1e'' manager_one_job)"
    using C9_cancelJob_accepts_only_active[of "''a13f9c1e''" manager_one_job] by simp
  then have "snd (cancelJob ''a13f9c1e'' manager_one_job) = manager_one_job"
    using C9_cancelJob_accepts_only_active[of "''a13f9c1e''" manager_one_job] by blast
  with acc j upd again same unknown show ?thesis by blast
qed

section \<open>The final status of a job\<close>

text \<open>
  While \<^verbatim>\<open>runJob\<close> awaits its workers the job is either \<^verbatim>\<open>syncing\<close> with the flag unset
  or \<^verbatim>\<open>cancelled\<close> with the flag set; the flag is set by a cancel request and never reset.
\<close>

text \<open>A cancel request acts on the job it finds as \<open>cancel_found\<close> does.\<close>

lemma cancelJob_cancel_found:
  "jobs m jobId = Some job \<Longrightarrow> jobs (snd (cancelJob jobId m)) jobId = Some (cancel_found job)"
  by (simp add: cancelJob_def cancel_found_def)

lemma run_step_flag:
  assumes "run_step st s = Some s'" "((status (rs_job s) = Syncing \<and> \<not> cancelled (rs_job s)) \<or> (status (rs_job s) = Cancelled \<and> cancelled (rs_job s)))"
  shows "((status (rs_job s') = Syncing \<and> \<not> cancelled (rs_job s')) \<or> (status (rs_job s') = Cancelled \<and> cancelled (rs_job s'))) \<and> (cancelled (rs_job s') \<longleftrightarrow> cancelled (rs_job s) \<or> st = CancelRequest)"
  using assms
  by (cases st)
     (auto simp: run_step_def cancel_found_def syncProperty_settle_def Let_def
           split: if_splits)

lemma run_steps_flag:
  assumes "run_steps sch s = Some s'" "((status (rs_job s) = Syncing \<and> \<not> cancelled (rs_job s)) \<or> (status (rs_job s) = Cancelled \<and> cancelled (rs_job s)))"
  shows "((status (rs_job s') = Syncing \<and> \<not> cancelled (rs_job s')) \<or> (status (rs_job s') = Cancelled \<and> cancelled (rs_job s'))) \<and> (cancelled (rs_job s') \<longleftrightarrow> cancelled (rs_job s) \<or> CancelRequest \<in> set sch)"
  using assms
proof (induction sch arbitrary: s)
  case Nil
  then show ?case by simp
next
  case (Cons st sch)
  from Cons.prems(1) obtain s1 where s1: "run_step st s = Some s1" "run_steps sch s1 = Some s'"
    by (auto split: option.splits)
  from run_step_flag[OF s1(1) Cons.prems(2)] Cons.IH[OF s1(2)] show ?case by auto
qed

lemma runJob_finish_status:
  "status (runJob_finish job) =
     (if cancelled job then Cancelled
      else if results job \<noteq> [] \<and> (\<forall>r \<in> set (results job). res_status r = RFailed) then Failed
      else Completed)"
  by (auto simp: runJob_finish_def Let_def list_all_iff)

lemma runJob_finish_results: "results (runJob_finish job) = results job"
  by (simp add: runJob_finish_def Let_def)

lemma run_step_no_properties:
  assumes "run_step st s = Some s'" "properties (rs_job s) = []" "rs_awaiting s = []"
  shows "properties (rs_job s') = [] \<and> rs_awaiting s' = [] \<and> results (rs_job s') = results (rs_job s)"
  using assms
  by (cases st) (auto simp: run_step_def cancel_found_def split: if_splits)

lemma run_steps_no_properties:
  assumes "run_steps sch s = Some s'" "properties (rs_job s) = []" "rs_awaiting s = []"
  shows "results (rs_job s') = results (rs_job s)"
  using assms
proof (induction sch arbitrary: s)
  case Nil
  then show ?case by simp
next
  case (Cons st sch)
  from Cons.prems(1) obtain s1 where s1: "run_step st s = Some s1" "run_steps sch s1 = Some s'"
    by (auto split: option.splits)
  from run_step_no_properties[OF s1(1) Cons.prems(2,3)] Cons.IH[OF s1(2)] show ?case by auto
qed

text \<open>
  Claim C1. A job created by \<^verbatim>\<open>createJob\<close> is run by \<^verbatim>\<open>runJob\<close> under any schedule of
  worker steps and cancel requests. When the execution finishes, the job's status is
  \<^verbatim>\<open>cancelled\<close> if a cancel request arrived during the execution (the flag was set at some
  point); otherwise \<^verbatim>\<open>failed\<close> exactly when the results list is non-empty and every result
  has status \<^verbatim>\<open>failed\<close>; otherwise \<^verbatim>\<open>completed\<close>. A job with zero properties has an empty
  results list, and with no cancel request it finishes at once, \<^verbatim>\<open>completed\<close>.
\<close>

theorem C1_final_job_status:
  "(runJob (fst (createJob new_id props m)) schedule = Some finished \<longrightarrow>
       status finished =
         (if CancelRequest \<in> set schedule then Cancelled
          else if results finished \<noteq> [] \<and> (\<forall>r \<in> set (results finished). res_status r = RFailed)
               then Failed
          else Completed)
       \<and> (props = [] \<longrightarrow> results finished = []))
   \<and> (props = [] \<longrightarrow>
         (\<exists>done. runJob (fst (createJob new_id props m)) [] = Some done
            \<and> status done = Completed \<and> results done = []))"
proof -
  let ?job = "fst (createJob new_id props m)"
  let ?s0 = "\<lparr>rs_job = runJob_begin ?job, rs_index = 0, rs_awaiting = []\<rparr>"
  have st0: "((status (rs_job ?s0) = Syncing \<and> \<not> cancelled (rs_job ?s0)) \<or> (status (rs_job ?s0) = Cancelled \<and> cancelled (rs_job ?s0)))" "\<not> cancelled (rs_job ?s0)" "results (rs_job ?s0) = []"
    "properties (rs_job ?s0) = props"
    by (simp_all add: runJob_begin_def createJob_def Let_def)
  have 1: "status finished =
         (if CancelRequest \<in> set schedule then Cancelled
          else if results finished \<noteq> [] \<and> (\<forall>r \<in> set (results finished). res_status r = RFailed)
               then Failed
          else Completed)
       \<and> (props = [] \<longrightarrow> results finished = [])"
    if fin: "runJob ?job schedule = Some finished"
  proof -
    from fin obtain s where s: "run_steps schedule ?s0 = Some s" "finished = runJob_finish (rs_job s)"
      by (auto simp: runJob_def split: option.splits if_splits)
    from run_steps_flag[OF s(1) st0(1)] st0(2)
    have c: "cancelled (rs_job s) \<longleftrightarrow> CancelRequest \<in> set schedule" by simp
    have "props = [] \<longrightarrow> results finished = []"
    proof
      assume "props = []"
      then have "results (rs_job s) = results (rs_job ?s0)"
        using run_steps_no_properties[OF s(1)] st0(4) by simp
      then show "results finished = []"
        using st0(3) s(2) by (simp add: runJob_finish_results)
    qed
    then show ?thesis
      unfolding s(2) runJob_finish_status runJob_finish_results using c by simp
  qed
  have 2: "\<exists>done. runJob ?job [] = Some done \<and> status done = Completed \<and> results done = []"
    if "props = []"
    using that by (simp add: runJob_def runJob_begin_def createJob_def runJob_finish_def Let_def)
  show ?thesis using 1 2 by blast
qed


theorem C1_final_job_status_witness:
  "status (the (runJob (fst (createJob ''9f3f9c1e'' [request_open, request_until_940] new_SyncManager))
      [Take, Take, Settle 1 (Threw ''quota exceeded''), Settle 0 (Threw ''quota exceeded'')])) = Failed
   \<and> status (the (runJob (fst (createJob ''9f3f9c1e'' [request_open, request_until_940] new_SyncManager))
      [Take, Take, Settle 1 (Threw ''quota exceeded''), CancelRequest,
       Settle 0 (Threw ''quota exceeded'')])) = Cancelled
   \<and> status (the (runJob (fst (createJob ''9f3f9c1e'' [request_open, request_until_940] new_SyncManager))
      [Take, Settle 0 (Threw ''quota exceeded''), Take,
       Settle 1 (Returned \<lparr>res_siteUrl = ''sc-domain:example.com'', res_status = RSkipped,
          res_rowsFetched = 0, res_rowsInserted = 0, res_error = None\<rparr>)])) = Completed
   \<and> status (the (runJob (fst (createJob ''9f3f9c1e'' [] new_SyncManager)) [])) = Completed
   \<and> results (the (runJob (fst (createJob ''9f3f9c1e'' [] new_SyncManager)) [])) = []"
proof -
  let ?job = "fst (createJob ''9f3f9c1e'' [request_open, request_until_940] new_SyncManager)"
  let ?none = "fst (createJob ''9f3f9c1e'' [] new_SyncManager)"
  let ?failed = "\<lparr>job_id = ''9f3f9c1e'', status = Failed, cancelled = False,
      properties = [request_open, request_until_940], totalProperties = 2, completedProperties = 2,
      results = [\<lparr>res_siteUrl = ''sc-domain:example.com'', res_status = RFailed, res_rowsFetched = 0,
                  res_rowsInserted = 0, res_error = Some ''quota exceeded''\<rparr>,
                 \<lparr>res_siteUrl = ''sc-domain:example.com'', res_status = RFailed, res_rowsFetched = 0,
                  res_rowsInserted = 0, res_error = Some ''quota exceeded''\<rparr>],
      error = None\<rparr>"
  let ?cancelled = "?failed\<lparr>status := Cancelled, cancelled := True\<rparr>"
  let ?partial = "\<lparr>job_id = ''9f3f9c1e'', status = Completed, cancelled = False,
      properties = [request_open, request_until_940], totalProperties = 2, completedProperties = 2,
      results = [\<lparr>res_siteUrl = ''sc-domain:example.com'', res_status = RFailed, res_rowsFetched = 0,
                  res_rowsInserted = 0, res_error = Some ''quota exceeded''\<rparr>,
                 \<lparr>res_siteUrl = ''sc-domain:example.com'', res_status = RSkipped, res_rowsFetched = 0,
                  res_rowsInserted = 0, res_error = None\<rparr>],
      error = Some (PropertiesFailed 1 2)\<rparr>"
  have r1: "runJob ?job [Take, Take, Settle 1 (Threw ''quota exceeded''),
       Settle 0 (Threw ''quota exceeded'')] = Some ?failed"
    by code_simp
  have r2: "runJob ?job [Take, Take, Settle 1 (Threw ''quota exceeded''), CancelRequest,
       Settle 0 (Threw ''quota exceeded'')] = Some ?cancelled"
    by code_simp
  have r3: "runJob ?job [Take, Settle 0 (Threw ''quota exceeded''), Take,
       Settle 1 (Returned \<lparr>res_siteUrl = ''sc-domain:example.com'', res_status = RSkipped,
          res_rowsFetched = 0, res_rowsInserted = 0, res_error = None\<rparr>)] = Some ?partial"
    by code_simp
  from C1_final_job_status[of "''9f3f9c1e''" "[request_open, request_until_940]" new_SyncManager
      "[Take, Take, Settle 1 (Threw ''quota exceeded''), Settle 0 (Threw ''quota exceeded'')]" ?failed] r1
  have 1: "status ?failed = Failed" by simp
  from C1_final_job_status[of "''9f3f9c1e''" "[request_open, request_until_940]" new_SyncManager
      "[Take, Take, Settle 1 (Threw ''quota exceeded''), CancelRequest,
        Settle 0 (Threw ''quota exceeded'')]" ?cancelled] r2
  have 2: "status ?cancelled = Cancelled" by simp
  from C1_final_job_status[of "''9f3f9c1e''" "[request_open, request_until_940]" new_SyncManager
      "[Take, Settle 0 (Threw ''quota exceeded''), Take,
       Settle 1 (Returned \<lparr>res_siteUrl = ''sc-domain:example.com'', res_status = RSkipped,
          res_rowsFetched = 0, res_rowsInserted = 0, res_error = None\<rparr>)]" ?partial] r3
  have 3: "status ?partial = Completed" by simp
  let ?empty = "\<lparr>job_id = ''9f3f9c1e'', status = Completed, cancelled = False, properties = [],
      totalProperties = 0, completedProperties = 0, results = [], error = None\<rparr>"
  have r4: "runJob ?none [] = Some ?empty"
    by code_simp
  from C1_final_job_status[of "''9f3f9c1e''" "[]" new_SyncManager "[]" ?empty] r4
  have 4: "status ?empty = Completed \<and> results ?empty = []" by simp
  show ?thesis using 1 2 3 4 r1 r2 r3 r4 by simp
qed

section \<open>The job history\<close>

lemma pruneHistory_stop:
  "length (jobOrder m) \<le> MAX_JOB_HISTORY \<Longrightarrow> pruneHistory m = m"
  by (subst pruneHistory.simps) simp

lemma pruneHistory_evicts:
  "\<exists>k. jobOrder (pruneHistory m) = drop k (jobOrder m)
      \<and> (\<forall>i \<in> set (take k (jobOrder m)).
            (\<exists>job. jobs m i = Some job \<and> is_terminal (status job)) \<and> jobs (pruneHistory m) i = None)
      \<and> (\<forall>i. i \<notin> set (take k (jobOrder m)) \<longrightarrow> jobs (pruneHistory m) i = jobs m i)"
proof (induction m rule: pruneHistory.induct)
  case (1 m)
  let ?Q = "\<lambda>m k. jobOrder (pruneHistory m) = drop k (jobOrder m)
      \<and> (\<forall>i \<in> set (take k (jobOrder m)).
            (\<exists>job. jobs m i = Some job \<and> is_terminal (status job)) \<and> jobs (pruneHistory m) i = None)
      \<and> (\<forall>i. i \<notin> set (take k (jobOrder m)) \<longrightarrow> jobs (pruneHistory m) i = jobs m i)"
  show ?case
  proof (cases "length (jobOrder m) > MAX_JOB_HISTORY")
    case False
    then have "pruneHistory m = m" by (simp add: pruneHistory_stop)
    then have "?Q m 0" by simp
    then show ?thesis by blast
  next
    case long: True
    then obtain oldId rest where ord: "jobOrder m = oldId # rest"
      by (cases "jobOrder m") auto
    show ?thesis
    proof (cases "jobs m oldId")
      case None
      then have "pruneHistory m = m" using long ord by (subst pruneHistory.simps) simp
      then have "?Q m 0" by simp
      then show ?thesis by blast
    next
      case (Some oldJob)
      show ?thesis
      proof (cases "status oldJob = Completed \<or> status oldJob = Failed \<or> status oldJob = Cancelled")
        case False
        then have "pruneHistory m = m" using long ord Some by (subst pruneHistory.simps) simp
        then have "?Q m 0" by simp
        then show ?thesis by blast
      next
        case True
        let ?m1 = "m\<lparr>jobs := (jobs m)(oldId := None), jobOrder := rest\<rparr>"
        have rec: "pruneHistory m = pruneHistory ?m1"
          using long ord Some True by (subst pruneHistory.simps) simp
        from "1.IH"[OF long ord Some True] obtain k where k: "?Q ?m1 k" by blast
        have tm: "is_terminal (status oldJob)" using True by (simp add: is_terminal_def)
        have a: "jobOrder (pruneHistory m) = drop (Suc k) (jobOrder m)"
          using k rec ord by simp
        have b: "(\<exists>job. jobs m i = Some job \<and> is_terminal (status job)) \<and> jobs (pruneHistory m) i = None"
          if "i \<in> set (take (Suc k) (jobOrder m))" for i
        proof (cases "i \<in> set (take k rest)")
          case True
          with k have "(\<exists>job. jobs ?m1 i = Some job \<and> is_terminal (status job))"
            and "jobs (pruneHistory ?m1) i = None" by auto
          then show ?thesis using rec by (auto split: if_splits)
        next
          case False
          then have i: "i = oldId" using that ord by simp
          from k False have "jobs (pruneHistory ?m1) i = jobs ?m1 i" by simp
          then show ?thesis using i rec Some tm by simp
        qed
        have c: "jobs (pruneHistory m) i = jobs m i" if "i \<notin> set (take (Suc k) (jobOrder m))" for i
        proof -
          from that ord have "i \<noteq> oldId" "i \<notin> set (take k rest)" by auto
          with k rec show ?thesis by simp
        qed
        from a b c have "?Q m (Suc k)" by blast
        then show ?thesis by blast
      qed
    qed
  qed
qed

text \<open>A job that is not terminal is never evicted.\<close>

lemma pruneHistory_keeps_active:
  assumes a: "jobs m i = Some job" "\<not> is_terminal (status job)"
  shows "jobs (pruneHistory m) i = Some job
         \<and> (i \<in> set (jobOrder m) \<longrightarrow> i \<in> set (jobOrder (pruneHistory m)))"
proof -
  from pruneHistory_evicts[of m] obtain k where
    k1: "jobOrder (pruneHistory m) = drop k (jobOrder m)" and
    k2: "\<forall>i \<in> set (take k (jobOrder m)).
            (\<exists>job. jobs m i = Some job \<and> is_terminal (status job)) \<and> jobs (pruneHistory m) i = None" and
    k3: "\<forall>i. i \<notin> set (take k (jobOrder m)) \<longrightarrow> jobs (pruneHistory m) i = jobs m i"
    by blast
  from a k2 have out: "i \<notin> set (take k (jobOrder m))" by auto
  with k3 a have "jobs (pruneHistory m) i = Some job" by simp
  moreover have "i \<in> set (jobOrder m) \<longrightarrow> i \<in> set (drop k (jobOrder m))"
    using out by (metis Un_iff append_take_drop_id set_append)
  ultimately show ?thesis using k1 by simp
qed

lemma long_job_blocks_eviction:
  "jobOrder (pruneHistory (apply_events (StartSync ''9f3f9c1e'' req # quick_jobs later_ids req)
      new_SyncManager)) = ''9f3f9c1e'' # later_ids"
  "terminal_tracked (pruneHistory (apply_events (StartSync ''9f3f9c1e'' req # quick_jobs later_ids req)
      new_SyncManager)) = later_ids"
  "map_option status (jobs (pruneHistory (apply_events
      (StartSync ''9f3f9c1e'' req # quick_jobs later_ids req) new_SyncManager)) ''9f3f9c1e'')
     = Some Syncing"
  by code_simp+

text \<open>
  Claim C7. The registry should retain at most the 50 most recent terminal jobs: when more
  than 50 jobs are tracked the oldest terminal job is evicted first, an active job is never
  evicted, and the cap is exceeded only while the excess jobs are active. Evaluated on the
  manager whose oldest job is still syncing while 51 later jobs have been started and have
  completed: \<^verbatim>\<open>pruneHistory\<close> takes the oldest identifier, finds its job active, puts the
  identifier back and leaves the loop. All 52 jobs are still tracked; one of them is
  active, and the 51 completed ones, one more than the cap, are all retained.
\<close>

theorem C7_long_job_blocks_eviction:
  "MAX_JOB_HISTORY = 50
   \<and> jobOrder (pruneHistory manager_with_long_job) = ''9f3f9c1e'' # later_ids
   \<and> map_option status (jobs (pruneHistory manager_with_long_job) ''9f3f9c1e'') = Some Syncing
   \<and> terminal_tracked (pruneHistory manager_with_long_job) = later_ids
   \<and> length later_ids = 51"
  unfolding manager_with_long_job_def
  using long_job_blocks_eviction[of request_open]
  by (simp add: MAX_JOB_HISTORY_def later_ids_def)

section \<open>The status of a cancelled job\<close>

lemma pruneHistory_jobs_subset:
  "jobs (pruneHistory m) i = None \<or> jobs (pruneHistory m) i = jobs m i"
  using pruneHistory_evicts[of m] by blast

lemma on_job_other: "i \<noteq> jobId \<Longrightarrow> jobs (on_job i f m) jobId = jobs m jobId"
  by (simp add: on_job_def split: option.splits)

lemma on_job_same: "jobs (on_job i f m) i = map_option f (jobs m i)"
  by (simp add: on_job_def split: option.splits)

lemma start_job_other:
  assumes "new_id \<noteq> jobId"
  shows "jobs (snd (start_job new_id props m)) jobId = None
       \<or> jobs (snd (start_job new_id props m)) jobId = jobs m jobId"
proof -
  let ?job = "\<lparr>job_id = new_id, status = Queued, cancelled = False, properties = props,
                 totalProperties = length props, completedProperties = 0, results = [],
                 error = None\<rparr>"
  let ?m0 = "m\<lparr>jobs := (jobs m)(new_id \<mapsto> ?job), jobOrder := jobOrder m @ [new_id]\<rparr>"
  have "snd (start_job new_id props m) = on_job new_id runJob_begin (pruneHistory ?m0)"
    by (simp add: start_job_def createJob_def Let_def)
  then have "jobs (snd (start_job new_id props m)) jobId = jobs (pruneHistory ?m0) jobId"
    using assms by (simp add: on_job_other)
  moreover have "jobs ?m0 jobId = jobs m jobId" using assms by simp
  ultimately show ?thesis using pruneHistory_jobs_subset[of ?m0 jobId] by auto
qed

lemma cancelJob_other: "i \<noteq> jobId \<Longrightarrow> jobs (snd (cancelJob i m)) jobId = jobs m jobId"
  by (simp add: cancelJob_def split: option.splits)

lemma cancelJob_terminal:
  "jobs m i = Some job \<Longrightarrow> status job = Cancelled \<Longrightarrow> snd (cancelJob i m) = m"
  by (simp add: cancelJob_def)

lemma cancelJob_unknown: "jobs m i = None \<Longrightarrow> snd (cancelJob i m) = m"
  by (simp add: cancelJob_def)

lemma settle_keeps_flag:
  "status (syncProperty_settle req out job) = status job"
  "cancelled (syncProperty_settle req out job) = cancelled job"
  by (simp_all add: syncProperty_settle_def Let_def)

lemma finish_cancelled:
  "cancelled job \<Longrightarrow> status (runJob_finish job) = Cancelled \<and> cancelled (runJob_finish job)"
  by (simp add: runJob_finish_def)

text \<open>Every event that does not start a job under \<open>jobId\<close> keeps a cancelled job under
  \<open>jobId\<close> cancelled, or evicts it.\<close>

lemma apply_event_keeps_cancelled:
  assumes inv: "\<forall>job. jobs m jobId = Some job \<longrightarrow> status job = Cancelled \<and> cancelled job"
      and ev1: "\<forall>args. ev \<noteq> StartSync jobId args"
      and ev2: "\<forall>listed args. ev \<noteq> StartSyncAll jobId listed args"
  shows "\<forall>job. jobs (apply_event ev m) jobId = Some job \<longrightarrow> status job = Cancelled \<and> cancelled job"
proof (cases ev)
  case (StartSync new_id args)
  with ev1 have "new_id \<noteq> jobId" by auto
  from start_job_other[OF this, of "[args]" m] inv show ?thesis
    unfolding StartSync by (auto simp: startSync_def)
next
  case (StartSyncAll new_id listed args)
  with ev2 have "new_id \<noteq> jobId" by auto
  from start_job_other[OF this, of "map (\<lambda>url. args\<lparr>siteUrl := url\<rparr>) listed" m] inv show ?thesis
    unfolding StartSyncAll by (auto simp: startSyncAll_def)
next
  case (CancelJob i)
  show ?thesis
  proof (cases "i = jobId")
    case False
    then show ?thesis using inv CancelJob by (simp add: cancelJob_other)
  next
    case True
    show ?thesis
    proof (cases "jobs m jobId")
      case None
      then show ?thesis using inv CancelJob True by (simp add: cancelJob_unknown)
    next
      case (Some job)
      with inv have "status job = Cancelled" by simp
      from cancelJob_terminal[OF Some this] show ?thesis using inv CancelJob True by simp
    qed
  qed
next
  case (PropertySettled i req out)
  show ?thesis
  proof (cases "i = jobId")
    case False
    then show ?thesis using inv PropertySettled by (simp add: on_job_other)
  next
    case True
    then show ?thesis using inv PropertySettled
      by (auto simp: on_job_same settle_keeps_flag)
  qed
next
  case (JobFinished i)
  show ?thesis
  proof (cases "i = jobId")
    case False
    then show ?thesis using inv JobFinished by (simp add: on_job_other)
  next
    case True
    then show ?thesis using inv JobFinished
      by (auto simp: on_job_same finish_cancelled)
  qed
qed

lemma apply_events_keep_cancelled:
  assumes "\<forall>job. jobs m jobId = Some job \<longrightarrow> status job = Cancelled \<and> cancelled job"
      and "\<forall>args. StartSync jobId args \<notin> set evs"
      and "\<forall>listed args. StartSyncAll jobId listed args \<notin> set evs"
  shows "\<forall>job. jobs (apply_events evs m) jobId = Some job \<longrightarrow> status job = Cancelled \<and> cancelled job"
  using assms
proof (induction evs arbitrary: m)
  case Nil
  then show ?case by (simp add: apply_events_def)
next
  case (Cons ev evs)
  have "\<forall>args. ev \<noteq> StartSync jobId args" "\<forall>listed args. ev \<noteq> StartSyncAll jobId listed args"
    using Cons.prems(2,3) by auto
  from apply_event_keeps_cancelled[OF Cons.prems(1) this]
  have "\<forall>job. jobs (apply_event ev m) jobId = Some job \<longrightarrow> status job = Cancelled \<and> cancelled job" .
  moreover have "\<forall>args. StartSync jobId args \<notin> set evs"
    "\<forall>listed args. StartSyncAll jobId listed args \<notin> set evs"
    using Cons.prems(2,3) by auto
  ultimately have "\<forall>job. jobs (apply_events evs (apply_event ev m)) jobId = Some job
        \<longrightarrow> status job = Cancelled \<and> cancelled job"
    by (rule Cons.IH)
  then show ?case by (simp add: apply_events_def)
qed

text \<open>The job object itself, tracked or not: whatever its \<^verbatim>\<open>runJob\<close> still does, the
  status stays \<^verbatim>\<open>cancelled\<close>.\<close>

lemma cancelled_object_stays_cancelled:
  assumes "status job = Cancelled" "cancelled job" "rs_job s = job" "run_steps sch s = Some s'"
  shows "status (rs_job s') = Cancelled \<and> status (runJob_finish (rs_job s')) = Cancelled"
proof -
  from run_steps_flag[OF assms(4)] assms(1,2,3)
  have "cancelled (rs_job s')" "status (rs_job s') = Cancelled" by auto
  then show ?thesis by (simp add: finish_cancelled)
qed

lemma evicted_after_fifty_starts:
  "fst (cancelJob ''9f3f9c1e'' (snd (startSync ''9f3f9c1e'' req new_SyncManager))) = True"
  "getStatus (Some ''9f3f9c1e'')
        (apply_events (fifty_starts req)
           (snd (cancelJob ''9f3f9c1e'' (snd (startSync ''9f3f9c1e'' req new_SyncManager)))))
      = Inl \<lparr>st_jobId = ''9f3f9c1e'', st_status = Failed, st_totalProperties = 0,
              st_completedProperties = 0, st_results = [],
              st_error = Some (JobNotFound ''9f3f9c1e'')\<rparr>"
  by code_simp+

text \<open>
  Claim C10, as stated: after \<^verbatim>\<open>cancelJob(jobId)\<close> has returned true, every later
  \<^verbatim>\<open>getStatus(jobId)\<close> reports \<^verbatim>\<open>cancelled\<close>. The statement fails: a cancelled job is
  terminal, so \<^verbatim>\<open>pruneHistory\<close> may evict it. After the cancelled job, fifty more jobs are
  started; \<^verbatim>\<open>getStatus\<close> then reports status \<^verbatim>\<open>failed\<close> with the job-not-found text.
\<close>

theorem C10_evicted_job_reports_failed_counterexample:
  "cancelJob ''9f3f9c1e'' manager_one_job = (True, snd (cancelJob ''9f3f9c1e'' manager_one_job))
   \<and> getStatus (Some ''9f3f9c1e'')
        (apply_events (fifty_starts request_open) (snd (cancelJob ''9f3f9c1e'' manager_one_job)))
      = Inl \<lparr>st_jobId = ''9f3f9c1e'', st_status = Failed, st_totalProperties = 0,
              st_completedProperties = 0, st_results = [],
              st_error = Some (JobNotFound ''9f3f9c1e'')\<rparr>"
proof -
  have "fst (cancelJob ''9f3f9c1e'' manager_one_job) = True"
    unfolding manager_one_job_def by (rule evicted_after_fifty_starts(1))
  then have "cancelJob ''9f3f9c1e'' manager_one_job = (True, snd (cancelJob ''9f3f9c1e'' manager_one_job))"
    by (metis prod.collapse)
  then show ?thesis
    using evicted_after_fifty_starts(2)[of request_open] unfolding manager_one_job_def by simp
qed

text \<open>\<^verbatim>\<open>createJob\<close> stores the new job with \<^verbatim>\<open>this.jobs.set(id, job)\<close> and does not check
  that the identifier is unused: a job started under the identifier of a cancelled job
  replaces it, and \<^verbatim>\<open>getStatus\<close> then reports the new job.\<close>

lemma restart_under_same_identifier:
  "getStatus (Some ''9f3f9c1e'')
        (apply_events [StartSync ''9f3f9c1e'' req]
           (snd (cancelJob ''9f3f9c1e'' (snd (startSync ''9f3f9c1e'' req new_SyncManager)))))
      = Inl \<lparr>st_jobId = ''9f3f9c1e'', st_status = Syncing, st_totalProperties = 1,
              st_completedProperties = 0, st_results = [], st_error = None\<rparr>"
  by code_simp

text \<open>
  Claim C10, amended. Let \<^verbatim>\<open>cancelJob(jobId)\<close> return true, for a \<open>jobId\<close> that is not the
  empty string (\<^verbatim>\<open>getStatus\<close> treats an empty identifier as absent and lists all jobs).
  Then the job's status is \<^verbatim>\<open>cancelled\<close> and its flag is set when \<^verbatim>\<open>cancelJob\<close> returns, and
  nothing that the job's \<^verbatim>\<open>runJob\<close> does afterwards changes the status to another value.
  Through every later sequence of manager events in which no job is created under the same
  identifier (job starts under other identifiers, cancel requests, properties of any job
  finishing, jobs reaching the end of \<^verbatim>\<open>runJob\<close>), \<^verbatim>\<open>getStatus(jobId)\<close> reports \<^verbatim>\<open>cancelled\<close>
  for as long as the registry tracks the job; once the job has been evicted from the
  history, \<^verbatim>\<open>getStatus(jobId)\<close> returns the synthetic \<^verbatim>\<open>failed\<close> status of an unknown job.
\<close>

theorem C10_cancelled_job_stays_cancelled_while_tracked:
  assumes "cancelJob jobId m = (True, m1)"
      and "jobId \<noteq> []"
      and "\<forall>args. StartSync jobId args \<notin> set evs"
      and "\<forall>listed args. StartSyncAll jobId listed args \<notin> set evs"
  shows "(\<exists>job. jobs m1 jobId = Some job \<and> status job = Cancelled \<and> cancelled job
            \<and> (\<forall>s sch s'. rs_job s = job \<and> run_steps sch s = Some s' \<longrightarrow>
                  status (rs_job s') = Cancelled \<and> status (runJob_finish (rs_job s')) = Cancelled))
       \<and> (case jobs (apply_events evs m1) jobId of
            Some job \<Rightarrow>
              status job = Cancelled \<and> cancelled job
              \<and> getStatus (Some jobId) (apply_events evs m1) = Inl (jobToStatus job)
              \<and> st_status (jobToStatus job) = Cancelled
          | None \<Rightarrow>
              getStatus (Some jobId) (apply_events evs m1) =
                Inl \<lparr>st_jobId = jobId, st_status = Failed, st_totalProperties = 0,
                     st_completedProperties = 0, st_results = [],
                     st_error = Some (JobNotFound jobId)\<rparr>)"
proof -
  from assms(1) obtain job where job: "jobs m1 jobId = Some job" "status job = Cancelled" "cancelled job"
    by (auto simp: cancelJob_def split: option.splits if_splits)
  have obj: "\<forall>s sch s'. rs_job s = job \<and> run_steps sch s = Some s' \<longrightarrow>
                  status (rs_job s') = Cancelled \<and> status (runJob_finish (rs_job s')) = Cancelled"
    using cancelled_object_stays_cancelled[OF job(2,3)] by blast
  from job have "\<forall>job. jobs m1 jobId = Some job \<longrightarrow> status job = Cancelled \<and> cancelled job"
    by auto
  from apply_events_keep_cancelled[OF this assms(3,4)]
  have later: "\<forall>job. jobs (apply_events evs m1) jobId = Some job
        \<longrightarrow> status job = Cancelled \<and> cancelled job" .
  have tracked: "case jobs (apply_events evs m1) jobId of
            Some job \<Rightarrow>
              status job = Cancelled \<and> cancelled job
              \<and> getStatus (Some jobId) (apply_events evs m1) = Inl (jobToStatus job)
              \<and> st_status (jobToStatus job) = Cancelled
          | None \<Rightarrow>
              getStatus (Some jobId) (apply_events evs m1) =
                Inl \<lparr>st_jobId = jobId, st_status = Failed, st_totalProperties = 0,
                     st_completedProperties = 0, st_results = [],
                     st_error = Some (JobNotFound jobId)\<rparr>"
    using later assms(2)
    by (auto simp: getStatus_def jobToStatus_def Let_def split: option.splits)
  from job obj tracked show ?thesis by blast
qed

theorem C10_cancelled_job_stays_cancelled_while_tracked_witness:
  "cancelJob ''9f3f9c1e'' manager_one_job = (True, snd (cancelJob ''9f3f9c1e'' manager_one_job))
   \<and> getStatus (Some ''9f3f9c1e'')
        (apply_events
           [PropertySettled ''9f3f9c1e'' request_open
              (Returned \<lparr>res_siteUrl = ''sc-domain:example.com'', res_status = RCancelled,
                         res_rowsFetched = 0, res_rowsInserted = 0, res_error = None\<rparr>),
            JobFinished ''9f3f9c1e'', StartSync ''a13f9c1e'' request_open, CancelJob ''9f3f9c1e'']
           (snd (cancelJob ''9f3f9c1e'' manager_one_job)))
      = Inl \<lparr>st_jobId = ''9f3f9c1e'', st_status = Cancelled, st_totalProperties = 1,
              st_completedProperties = 1,
              st_results = [\<lparr>res_siteUrl = ''sc-domain:example.com'', res_status = RCancelled,
                         res_rowsFetched = 0, res_rowsInserted = 0, res_error = None\<rparr>],
              st_error = None\<rparr>"
proof -
  let ?evs = "[PropertySettled ''9f3f9c1e'' request_open
              (Returned \<lparr>res_siteUrl = ''sc-domain:example.com'', res_status = RCancelled,
                         res_rowsFetched = 0, res_rowsInserted = 0, res_error = None\<rparr>),
            JobFinished ''9f3f9c1e'', StartSync ''a13f9c1e'' request_open, CancelJob ''9f3f9c1e'']"
  let ?m1 = "snd (cancelJob ''9f3f9c1e'' manager_one_job)"
  have "fst (cancelJob ''9f3f9c1e'' manager_one_job) = True"
    unfolding manager_one_job_def by (rule evicted_after_fifty_starts(1))
  then have c: "cancelJob ''9f3f9c1e'' manager_one_job = (True, ?m1)"
    by (metis prod.collapse)
  have n: "''9f3f9c1e'' \<noteq> []" by simp
  have e1: "\<forall>args. StartSync ''9f3f9c1e'' args \<notin> set ?evs" by simp
  have e2: "\<forall>listed args. StartSyncAll ''9f3f9c1e'' listed args \<notin> set ?evs" by simp
  have j: "jobs (apply_events ?evs ?m1) ''9f3f9c1e'' =
      Some \<lparr>job_id = ''9f3f9c1e'', status = Cancelled, cancelled = True,
            properties = [request_open], totalProperties = 1, completedProperties = 1,
            results = [\<lparr>res_siteUrl = ''sc-domain:example.com'', res_status = RCancelled,
                         res_rowsFetched = 0, res_rowsInserted = 0, res_error = None\<rparr>],
            error = None\<rparr>"
    by code_simp
  from C10_cancelled_job_stays_cancelled_while_tracked[OF c n e1 e2]
  show ?thesis using c unfolding j by (simp add: jobToStatus_def)
qed

end
